theory Spec2Isabelle
  imports Complex_Main "HOL-Library.Char_ord" "HOL-Library.List_Lexorder"
begin

section \<open>JavaScript numbers\<close>

text \<open>
  A JavaScript \<open>number\<close> is modelled as an exact real, or one of the three special
  values of IEEE 754 that the source tests for or can produce by a division by zero.
  Finite arithmetic is exact: rounding, overflow to an infinity and the sign of zero are
  not modelled (a zero divisor is treated as \<open>+0\<close>, which is what every subtraction
  \<open>a - a\<close> of the source yields). The special values follow IEEE 754.
\<close>

datatype jsnum = Fin real | PInf | NInf | NaN

fun isNaN :: "jsnum \<Rightarrow> bool" where
  "isNaN NaN = True"
| "isNaN _ = False"

fun isFin :: "jsnum \<Rightarrow> bool" where
  "isFin (Fin _) = True"
| "isFin _ = False"

fun jneg :: "jsnum \<Rightarrow> jsnum" where
  "jneg (Fin a) = Fin (- a)"
| "jneg PInf = NInf"
| "jneg NInf = PInf"
| "jneg NaN = NaN"

fun jadd :: "jsnum \<Rightarrow> jsnum \<Rightarrow> jsnum" where
  "jadd (Fin a) (Fin b) = Fin (a + b)"
| "jadd NaN _ = NaN"
| "jadd _ NaN = NaN"
| "jadd PInf NInf = NaN"
| "jadd NInf PInf = NaN"
| "jadd PInf _ = PInf"
| "jadd _ PInf = PInf"
| "jadd NInf _ = NInf"
| "jadd _ NInf = NInf"

definition jsub :: "jsnum \<Rightarrow> jsnum \<Rightarrow> jsnum" where
  "jsub a b = jadd a (jneg b)"

text \<open>The sign of a number that is not NaN: \<open>-1\<close>, \<open>0\<close> or \<open>1\<close>.\<close>

fun jsign :: "jsnum \<Rightarrow> real" where
  "jsign (Fin a) = sgn a"
| "jsign PInf = 1"
| "jsign NInf = - 1"
| "jsign NaN = 0"

definition inf_of_sign :: "real \<Rightarrow> jsnum" where
  "inf_of_sign s = (if s = 0 then NaN else if 0 < s then PInf else NInf)"

fun jmul :: "jsnum \<Rightarrow> jsnum \<Rightarrow> jsnum" where
  "jmul (Fin a) (Fin b) = Fin (a * b)"
| "jmul NaN _ = NaN"
| "jmul _ NaN = NaN"
| "jmul a b = inf_of_sign (jsign a * jsign b)"

fun jdiv :: "jsnum \<Rightarrow> jsnum \<Rightarrow> jsnum" where
  "jdiv (Fin a) (Fin b) = (if b = 0 then inf_of_sign (sgn a) else Fin (a / b))"
| "jdiv NaN _ = NaN"
| "jdiv _ NaN = NaN"
| "jdiv (Fin a) _ = Fin 0"
| "jdiv a (Fin b) = inf_of_sign (jsign a * (if b < 0 then - 1 else 1))"
| "jdiv _ _ = NaN"

fun Math_sqrt :: "jsnum \<Rightarrow> jsnum" where
  "Math_sqrt (Fin a) = (if a < 0 then NaN else Fin (sqrt a))"
| "Math_sqrt PInf = PInf"
| "Math_sqrt NInf = NaN"
| "Math_sqrt NaN = NaN"

fun Math_abs :: "jsnum \<Rightarrow> jsnum" where
  "Math_abs (Fin a) = Fin \<bar>a\<bar>"
| "Math_abs PInf = PInf"
| "Math_abs NInf = PInf"
| "Math_abs NaN = NaN"

fun Math_sin :: "jsnum \<Rightarrow> jsnum" where
  "Math_sin (Fin a) = Fin (sin a)"
| "Math_sin _ = NaN"

fun Math_cos :: "jsnum \<Rightarrow> jsnum" where
  "Math_cos (Fin a) = Fin (cos a)"
| "Math_cos _ = NaN"

text \<open>\<open>Math.pow(x, 2)\<close>: the square, also on the special values.\<close>

definition pow2 :: "jsnum \<Rightarrow> jsnum" where
  "pow2 x = jmul x x"

text \<open>The comparison operators: every comparison with NaN is false.\<close>

fun jlt :: "jsnum \<Rightarrow> jsnum \<Rightarrow> bool" where
  "jlt (Fin a) (Fin b) = (a < b)"
| "jlt NaN _ = False"
| "jlt _ NaN = False"
| "jlt _ NInf = False"
| "jlt PInf _ = False"
| "jlt _ _ = True"

definition jle :: "jsnum \<Rightarrow> jsnum \<Rightarrow> bool" where
  "jle a b = (\<not> isNaN a \<and> \<not> isNaN b \<and> \<not> jlt b a)"

definition jeq :: "jsnum \<Rightarrow> jsnum \<Rightarrow> bool" where
  "jeq a b = (\<not> isNaN a \<and> a = b)"

text \<open>\<open>Math.min\<close> and \<open>Math.max\<close> of two arguments: NaN when either is.\<close>

definition Math_min :: "jsnum \<Rightarrow> jsnum \<Rightarrow> jsnum" where
  "Math_min a b = (if isNaN a \<or> isNaN b then NaN else if jlt b a then b else a)"

definition Math_max :: "jsnum \<Rightarrow> jsnum \<Rightarrow> jsnum" where
  "Math_max a b = (if isNaN a \<or> isNaN b then NaN else if jlt a b then b else a)"

text \<open>\<open>Math.min(...xs)\<close> and \<open>Math.max(...xs)\<close>: \<open>Infinity\<close> and \<open>-Infinity\<close> on no argument.\<close>

definition Math_min_list :: "jsnum list \<Rightarrow> jsnum" where
  "Math_min_list xs = foldl Math_min PInf xs"

definition Math_max_list :: "jsnum list \<Rightarrow> jsnum" where
  "Math_max_list xs = foldl Math_max NInf xs"

text \<open>\<open>xs.reduce((a, b) => a + b, 0)\<close>.\<close>

definition sum_reduce :: "jsnum list \<Rightarrow> jsnum" where
  "sum_reduce xs = foldl jadd (Fin 0) xs"

text \<open>\<open>xs.slice(-k)\<close>: the last \<open>k\<close> elements, the whole array when it is shorter.\<close>

definition slice_last :: "nat \<Rightarrow> 'a list \<Rightarrow> 'a list" where
  "slice_last k xs = drop (length xs - k) xs"

text \<open>
  \<open>xs[i]\<close> where the result is used as a number: out of range the element is
  \<open>undefined\<close>, which every arithmetic operator turns into NaN.
\<close>

definition nth_num :: "jsnum list \<Rightarrow> int \<Rightarrow> jsnum" where
  "nth_num xs i = (if 0 \<le> i \<and> i < int (length xs) then xs ! nat i else NaN)"

section \<open>Fit metrics (ml-utils.ts)\<close>

datatype error =
    LengthMismatch
  | InsufficientData
  | InvalidFormat
  | InvalidPrice
  | NoPriceData
  | ModelMissingParams
  | MLFailure
  | TypeErr

text \<open>\<open>xs.some(val => isNaN(val))\<close>.\<close>

definition hasNaN :: "jsnum list \<Rightarrow> bool" where
  "hasNaN xs = list_ex isNaN xs"

text \<open>The mean and the two sums of squares of \<open>calculateR2Score\<close>.\<close>

definition actualMean :: "jsnum list \<Rightarrow> jsnum" where
  "actualMean actual = jdiv (sum_reduce actual) (Fin (real (length actual)))"

definition totalSumSquares :: "jsnum list \<Rightarrow> jsnum" where
  "totalSumSquares actual =
     foldl (\<lambda>sum val. jadd sum (pow2 (jsub val (actualMean actual)))) (Fin 0) actual"

text \<open>
  \<open>actual.reduce((sum, val, i) => sum + Math.pow(val - predicted[i], 2), 0)\<close>, with
  the index running over \<open>actual\<close>: the residual sum of \<open>calculateR2Score\<close> and the
  sum of squared errors of \<open>calculateMSE\<close>.
\<close>

definition residualSumSquares :: "jsnum list \<Rightarrow> jsnum list \<Rightarrow> jsnum" where
  "residualSumSquares actual predicted =
     foldl (\<lambda>sum (val, i). jadd sum (pow2 (jsub val (nth_num predicted (int i))))) (Fin 0)
       (zip actual [0 ..< length actual])"

definition calculateR2Score :: "jsnum list \<Rightarrow> jsnum list \<Rightarrow> error + jsnum" where
  "calculateR2Score actual predicted =
     (if length actual \<noteq> length predicted then Inl LengthMismatch
      else if hasNaN actual \<or> hasNaN predicted then Inr (Fin 0)
      else if jeq (totalSumSquares actual) (Fin 0) then Inr (Fin 0)
      else
        let r2 = jsub (Fin 1)
                   (jdiv (residualSumSquares actual predicted) (totalSumSquares actual))
        in Inr (if isNaN r2 then Fin 0 else r2))"

definition calculateMSE :: "jsnum list \<Rightarrow> jsnum list \<Rightarrow> error + jsnum" where
  "calculateMSE actual predicted =
     (if length actual \<noteq> length predicted then Inl LengthMismatch
      else if hasNaN actual \<or> hasNaN predicted then Inr (Fin 0)
      else
        let mse = jdiv (residualSumSquares actual predicted) (Fin (real (length actual)))
        in Inr (if isNaN mse then Fin 0 else mse))"

section \<open>Prediction results (page.tsx)\<close>

record PricePoint =
  date :: string
  price :: jsnum

datatype trend = Up | Down | Stable

record PredictionResult =
  currentPrice :: jsnum
  predictedPrice :: jsnum
  confidence :: jsnum
  trend :: trend
  change :: jsnum
  changePercent :: jsnum

text \<open>
  \<open>parseFloat(x.toFixed(d))\<close>: the nearest multiple of \<open>10^-d\<close>, a tie going away from
  zero; from \<open>10^21\<close> on \<open>toFixed\<close> prints the number itself. NaN and the infinities
  print as their names, which \<open>parseFloat\<close> reads back.
\<close>

definition toFixed :: "nat \<Rightarrow> jsnum \<Rightarrow> jsnum" where
  "toFixed d x =
     (case x of
        Fin r \<Rightarrow>
          if 10 ^ 21 \<le> \<bar>r\<bar> then Fin r
          else Fin (sgn r * real_of_int \<lfloor>\<bar>r\<bar> * 10 ^ d + 1 / 2\<rfloor> / 10 ^ d)
      | _ \<Rightarrow> x)"

text \<open>
  \<open>Math.abs(change) < currentPrice * 0.005 ? 'stable' : (change > 0 ? 'up' : 'down')\<close>,
  written out in both predictors.
\<close>

definition trendOf :: "jsnum \<Rightarrow> jsnum \<Rightarrow> trend" where
  "trendOf chg cur =
     (if jlt (Math_abs chg) (jmul cur (Fin (5 / 1000))) then Stable
      else if jlt (Fin 0) chg then Up else Down)"

text \<open>The object literal both predictors return, from the three values that differ.\<close>

definition buildResult :: "jsnum \<Rightarrow> jsnum \<Rightarrow> jsnum \<Rightarrow> PredictionResult" where
  "buildResult cur nxt conf =
     (let chg = jsub nxt cur;
          chgPercent = jmul (jdiv chg cur) (Fin 100)
      in \<lparr> currentPrice = toFixed 2 cur,
           predictedPrice = toFixed 2 nxt,
           confidence = toFixed 1 conf,
           trend = trendOf chg cur,
           change = toFixed 2 chg,
           changePercent = toFixed 2 chgPercent \<rparr>)"

section \<open>The statistical predictor \<open>fastPredictStock\<close>\<close>

definition shortMA :: "jsnum list \<Rightarrow> jsnum" where
  "shortMA prices = jdiv (sum_reduce (slice_last 5 prices)) (Fin 5)"

definition longMA :: "jsnum list \<Rightarrow> jsnum" where
  "longMA prices = jdiv (sum_reduce (slice_last 20 prices)) (Fin 20)"

text \<open>\<open>Array.from({length: n}, (_, i) => i)\<close>.\<close>

definition indices :: "nat \<Rightarrow> jsnum list" where
  "indices n = map (\<lambda>i. Fin (real i)) [0 ..< n]"

definition sumXY :: "jsnum list \<Rightarrow> jsnum list \<Rightarrow> jsnum" where
  "sumXY x recentPrices =
     foldl (\<lambda>acc (xi, i). jadd acc (jmul xi (nth_num recentPrices (int i)))) (Fin 0)
       (zip x [0 ..< length x])"

definition sumXX :: "jsnum list \<Rightarrow> jsnum" where
  "sumXX x = foldl (\<lambda>acc xi. jadd acc (jmul xi xi)) (Fin 0) x"

definition slope :: "jsnum list \<Rightarrow> jsnum" where
  "slope recentPrices =
     (let n = Fin (real (length recentPrices));
          x = indices (length recentPrices);
          sumX = sum_reduce x;
          sumY = sum_reduce recentPrices
      in jdiv (jsub (jmul n (sumXY x recentPrices)) (jmul sumX sumY))
              (jsub (jmul n (sumXX x)) (jmul sumX sumX)))"

definition intercept :: "jsnum list \<Rightarrow> jsnum" where
  "intercept recentPrices =
     (let n = Fin (real (length recentPrices));
          sumX = sum_reduce (indices (length recentPrices));
          sumY = sum_reduce recentPrices
      in jdiv (jsub sumY (jmul (slope recentPrices) sumX)) n)"

definition nextPrice :: "jsnum list \<Rightarrow> jsnum" where
  "nextPrice recentPrices =
     jadd (jmul (slope recentPrices) (Fin (real (length recentPrices))))
          (intercept recentPrices)"

text \<open>
  \<open>prices.slice(1).map((price, i) => (price - prices[i]) / prices[i])\<close>, and the
  standard deviation of the returns; \<open>fastPredictStock\<close> and \<open>calculateVolatility\<close>
  spell out the same three lines.
\<close>

definition returns :: "jsnum list \<Rightarrow> jsnum list" where
  "returns prices =
     map (\<lambda>(p, i). jdiv (jsub p (nth_num prices (int i))) (nth_num prices (int i)))
       (zip (drop 1 prices) [0 ..< length (drop 1 prices)])"

definition avgReturn :: "jsnum list \<Rightarrow> jsnum" where
  "avgReturn rs = jdiv (sum_reduce rs) (Fin (real (length rs)))"

definition variance :: "jsnum list \<Rightarrow> jsnum" where
  "variance rs =
     jdiv (foldl (\<lambda>sum ret. jadd sum (pow2 (jsub ret (avgReturn rs)))) (Fin 0) rs)
          (Fin (real (length rs)))"

definition volatility :: "jsnum list \<Rightarrow> jsnum" where
  "volatility prices = Math_sqrt (variance (returns prices))"

definition fastConfidence :: "jsnum list \<Rightarrow> jsnum" where
  "fastConfidence prices =
     (let cur = nth_num prices (int (length prices) - 1);
          trendStrength = Math_abs (slope (slice_last 10 prices));
          maConsistency = jdiv (Math_abs (jsub (shortMA prices) (longMA prices))) cur;
          baseConfidence =
            Math_min (Fin 90)
              (jadd (jmul trendStrength (Fin 1000)) (jmul maConsistency (Fin 100)));
          volatilityPenalty = Math_min (Fin 30) (jmul (volatility prices) (Fin 500))
      in Math_max (Fin 45) (Math_min (Fin 90) (jsub baseConfidence volatilityPenalty)))"

definition fastPredictStock :: "PricePoint list \<Rightarrow> error + PredictionResult" where
  "fastPredictStock stockData =
     (if length stockData < 10 then Inl InsufficientData
      else
        let prices = map price stockData;
            cur = nth_num prices (int (length prices) - 1)
        in Inr (buildResult cur (nextPrice (slice_last 10 prices)) (fastConfidence prices)))"

definition calculateVolatility :: "jsnum list \<Rightarrow> jsnum" where
  "calculateVolatility prices =
     (if length prices < 2 then Fin 0 else Math_sqrt (variance (returns prices)))"

section \<open>Feature extraction and inference (ml-utils.ts)\<close>

record NormParams =
  xMin :: jsnum
  xMax :: jsnum
  yMin :: jsnum
  yMax :: jsnum

text \<open>
  \<open>xs.slice(s, e)\<close> for bounds that are not negative, as both are where the source
  calls it.
\<close>

definition slice_range :: "int \<Rightarrow> int \<Rightarrow> 'a list \<Rightarrow> 'a list" where
  "slice_range s e xs = drop (nat s) (take (nat e) xs)"

definition ma3 :: "jsnum list \<Rightarrow> int \<Rightarrow> jsnum" where
  "ma3 prices index =
     (if 2 \<le> index
      then jdiv (jadd (jadd (nth_num prices index) (nth_num prices (index - 1)))
                      (nth_num prices (index - 2))) (Fin 3)
      else nth_num prices index)"

definition ma5 :: "jsnum list \<Rightarrow> int \<Rightarrow> jsnum" where
  "ma5 prices index =
     (if 4 \<le> index
      then jdiv (sum_reduce (slice_range (max 0 (index - 4)) (index + 1) prices))
                (Math_min (Fin 5) (Fin (real_of_int (index + 1))))
      else nth_num prices index)"

definition momentum :: "jsnum list \<Rightarrow> int \<Rightarrow> jsnum" where
  "momentum prices index =
     (if 0 < index then jsub (nth_num prices index) (nth_num prices (index - 1)) else Fin 0)"

definition featureVolatility :: "jsnum list \<Rightarrow> int \<Rightarrow> jsnum" where
  "featureVolatility prices index =
     (if 5 \<le> index
      then Math_sqrt
             (jdiv (foldl (\<lambda>sum p. jadd sum (pow2 (jsub p (ma5 prices index)))) (Fin 0)
                      (slice_range (max 0 (index - 4)) (index + 1) prices))
                   (Math_min (Fin 5) (Fin (real_of_int (index + 1)))))
      else Fin 0)"

definition xNorm :: "NormParams \<Rightarrow> jsnum \<Rightarrow> jsnum" where
  "xNorm params x = jdiv (jsub x (xMin params)) (jsub (xMax params) (xMin params))"

text \<open>
  The closure \<open>createAdvancedFeatures\<close> of \<open>trainLinearRegressionModel\<close>, with the
  four extrema it captures as its first argument.
\<close>

definition createAdvancedFeatures :: "NormParams \<Rightarrow> jsnum \<Rightarrow> jsnum list \<Rightarrow> int \<Rightarrow> jsnum list" where
  "createAdvancedFeatures params x prices index =
     (let xn = xNorm params x;
          range = jsub (yMax params) (yMin params)
      in [ xn,
           jmul xn xn,
           Math_sin (jmul (jmul xn (Fin 2)) (Fin pi)),
           Math_cos (jmul (jmul xn (Fin 2)) (Fin pi)),
           Math_sin (jmul (jmul xn (Fin 4)) (Fin pi)),
           jdiv (jsub (ma3 prices index) (yMin params)) range,
           jdiv (jsub (ma5 prices index) (yMin params)) range,
           jdiv (momentum prices index) range,
           jdiv (featureVolatility prices index) range ])"

text \<open>
  The TensorFlow.js network is outside the repository: its inference is a function from
  a feature row to the raw output, about which nothing is assumed. The three fields the
  source attaches to the model object after training are optional, as
  \<open>predictNextDay\<close> and \<open>getPredictionsForData\<close> test for them.
\<close>

record TrainedModel =
  predict :: "jsnum list \<Rightarrow> jsnum"
  normalizationParams :: "NormParams option"
  createFeatures :: "(jsnum \<Rightarrow> jsnum list \<Rightarrow> int \<Rightarrow> jsnum list) option"
  trainingPrices :: "jsnum list option"

text \<open>
  What the TensorFlow.js part of one request does: training raises or loses the race
  against the 8 second timer, or it yields a network.
\<close>

datatype ml_run = MLThrows | MLTrains "jsnum list \<Rightarrow> jsnum"

definition trainLinearRegressionModel :: "ml_run \<Rightarrow> jsnum list \<Rightarrow> jsnum list \<Rightarrow> error + TrainedModel" where
  "trainLinearRegressionModel ml xs ys =
     (let params = \<lparr> xMin = Math_min_list xs, xMax = Math_max_list xs,
                      yMin = Math_min_list ys, yMax = Math_max_list ys \<rparr>
      in case ml of
           MLThrows \<Rightarrow> Inl MLFailure
         | MLTrains network \<Rightarrow>
             Inr \<lparr> predict = network,
                   normalizationParams = Some params,
                   createFeatures = Some (createAdvancedFeatures params),
                   trainingPrices = Some ys \<rparr>)"

text \<open>\<open>Math.max(yMin * 0.8, Math.min(yMax * 1.2, v))\<close>.\<close>

definition bound :: "NormParams \<Rightarrow> jsnum \<Rightarrow> jsnum" where
  "bound params v =
     Math_max (jmul (yMin params) (Fin (8 / 10)))
       (Math_min (jmul (yMax params) (Fin (12 / 10))) v)"

definition denormalize :: "NormParams \<Rightarrow> jsnum \<Rightarrow> jsnum" where
  "denormalize params v = jadd (jmul v (jsub (yMax params) (yMin params))) (yMin params)"

definition predictNextDay :: "TrainedModel \<Rightarrow> int \<Rightarrow> error + jsnum" where
  "predictNextDay model nextDayIndex =
     (case (normalizationParams model, createFeatures model, trainingPrices model) of
        (Some params, Some mkFeatures, Some tp) \<Rightarrow>
          let features = mkFeatures (Fin (real_of_int nextDayIndex)) tp
                           (min nextDayIndex (int (length tp) - 1));
              result = denormalize params (predict model features)
          in Inr (if isNaN result then yMin params else bound params result)
      | _ \<Rightarrow> Inl ModelMissingParams)"

text \<open>\<open>a || b\<close> on numbers: \<open>b\<close> when \<open>a\<close> is \<open>0\<close>, NaN or \<open>undefined\<close>.\<close>

definition or_else :: "jsnum \<Rightarrow> jsnum \<Rightarrow> jsnum" where
  "or_else a b = (if isNaN a \<or> a = Fin 0 then b else a)"

definition getPredictionsForData :: "TrainedModel \<Rightarrow> jsnum list \<Rightarrow> error + jsnum list" where
  "getPredictionsForData model xs =
     (case (normalizationParams model, createFeatures model, trainingPrices model) of
        (Some params, Some mkFeatures, Some tp) \<Rightarrow>
          let xsFeatures = map (\<lambda>(x, i). mkFeatures x tp (int i)) (zip xs [0 ..< length xs]);
              result = map (\<lambda>f. denormalize params (predict model f)) xsFeatures
          in Inr (map (\<lambda>(val, i).
                    if isNaN val
                    then or_else (nth_num tp (int i))
                           (jdiv (jadd (yMin params) (yMax params)) (Fin 2))
                    else bound params val)
                  (zip result [0 ..< length result]))
      | _ \<Rightarrow> Inl ModelMissingParams)"

section \<open>The orchestrator \<open>enhancedPredictStock\<close>\<close>

text \<open>
  \<open>processStockData\<close> reads an object keyed by date. The object is an association
  list with one entry per key; the closing price is held as the number that
  \<open>parseFloat\<close> reads from the stored string (\<open>enhancedPredictStock\<close> stores
  \<open>price.toString()\<close>, which \<open>parseFloat\<close> reads back as the same number).
\<close>

record StockData =
  dates_of :: "string list"
  prices_of :: "jsnum list"
  xs_of :: "jsnum list"

definition processStockData :: "(string \<times> jsnum) list option \<Rightarrow> error + StockData" where
  "processStockData timeSeries =
     (case timeSeries of
        None \<Rightarrow> Inl InvalidFormat
      | Some ts \<Rightarrow>
          let ds = sort (map fst ts);
              ps = map (\<lambda>d. case map_of ts d of Some v \<Rightarrow> v | None \<Rightarrow> NaN) ds
          in if hasNaN ps then Inl InvalidPrice
             else if length ps = 0 then Inl NoPriceData
             else Inr \<lparr> dates_of = ds, prices_of = ps, xs_of = indices (length ds) \<rparr>)"

text \<open>
  \<open>stockData.reduce((acc, item) => { acc[item.date] = ...; return acc }, {})\<close>: a
  later point with the same date overwrites the earlier one.
\<close>

definition assign :: "'k \<Rightarrow> 'v \<Rightarrow> ('k \<times> 'v) list \<Rightarrow> ('k \<times> 'v) list" where
  "assign k v al = (if k \<in> fst ` set al then map (\<lambda>(k', v'). if k' = k then (k', v) else (k', v')) al
                    else al @ [(k, v)])"

definition timeSeriesOf :: "PricePoint list \<Rightarrow> (string \<times> jsnum) list" where
  "timeSeriesOf stockData = foldl (\<lambda>acc item. assign (date item) (price item) acc) [] stockData"

definition bind_err :: "error + 'a \<Rightarrow> ('a \<Rightarrow> error + 'b) \<Rightarrow> error + 'b" where
  "bind_err m f = (case m of Inl e \<Rightarrow> Inl e | Inr v \<Rightarrow> f v)"

definition enhancedConfidence :: "jsnum \<Rightarrow> jsnum \<Rightarrow> jsnum \<Rightarrow> jsnum list \<Rightarrow> jsnum" where
  "enhancedConfidence r2Score mse cur prices =
     (let baseConfidence = Math_max (Fin 0) (Math_min (Fin 100) (jmul r2Score (Fin 100)));
          mseConfidence = Math_max (Fin 0) (jsub (Fin 100) (jmul (jdiv mse cur) (Fin 100)));
          volatilityPenalty = Math_min (Fin 20) (jmul (calculateVolatility prices) (Fin 10))
      in Math_max (Fin 40)
           (Math_min (Fin 95)
              (jsub (jadd (jmul baseConfidence (Fin (6 / 10))) (jmul mseConfidence (Fin (4 / 10))))
                    volatilityPenalty)))"

text \<open>The body of the inner \<open>try\<close>: the result of the trained path, or what it throws.\<close>

definition enhancedPath :: "PricePoint list \<Rightarrow> ml_run \<Rightarrow> error + PredictionResult" where
  "enhancedPath stockData ml =
     bind_err (processStockData (Some (timeSeriesOf stockData))) (\<lambda>processedData.
     bind_err (trainLinearRegressionModel ml (xs_of processedData) (prices_of processedData)) (\<lambda>model.
     bind_err (getPredictionsForData model (xs_of processedData)) (\<lambda>predictions.
     bind_err (predictNextDay model (int (length (xs_of processedData)))) (\<lambda>nxt.
     bind_err (calculateR2Score (prices_of processedData) predictions) (\<lambda>r2Score.
     bind_err (calculateMSE (prices_of processedData) predictions) (\<lambda>mse.
       case stockData of
         [] \<Rightarrow> Inl TypeErr
       | _ \<Rightarrow>
           let cur = price (last stockData)
           in Inr (buildResult cur nxt
                     (enhancedConfidence r2Score mse cur (prices_of processedData)))))))))"

text \<open>
  The outer \<open>try\<close> rethrows what \<open>fastPredictStock\<close> throws; the inner \<open>catch\<close>
  returns the fallback result for whatever the trained path throws.
\<close>

definition enhancedPredictStock :: "PricePoint list \<Rightarrow> ml_run \<Rightarrow> error + PredictionResult" where
  "enhancedPredictStock stockData ml =
     (case fastPredictStock stockData of
        Inl e \<Rightarrow> Inl e
      | Inr fastResult \<Rightarrow>
          (case enhancedPath stockData ml of
             Inl _ \<Rightarrow> Inr fastResult
           | Inr r \<Rightarrow> Inr r))"

section \<open>The store: arrays and records as objects\<close>

text \<open>
  For the claim that \<open>fastPredictStock\<close> leaves its argument as it found it, arrays
  and records are objects in a store: a cell per address, and the next free address.
  The argument is the address of an array of addresses of \<open>{date, price}\<close> records.
\<close>

type_synonym addr = nat

datatype cell = PointObj PricePoint | PointArray "addr list" | NumArray "jsnum list"

record store =
  cells :: "addr \<Rightarrow> cell option"
  lim :: addr

text \<open>A new object: \<open>map\<close>, \<open>slice\<close> and \<open>Array.from\<close> each return one.\<close>

definition alloc :: "cell \<Rightarrow> store \<Rightarrow> addr \<times> store" where
  "alloc c s = (lim s, s\<lparr>cells := (cells s)(lim s \<mapsto> c), lim := Suc (lim s)\<rparr>)"

text \<open>Reading an array of numbers, a record, and an array of records.\<close>

definition nums :: "store \<Rightarrow> addr \<Rightarrow> jsnum list" where
  "nums s a = (case cells s a of Some (NumArray xs) \<Rightarrow> xs | _ \<Rightarrow> [])"

definition point_at :: "store \<Rightarrow> addr \<Rightarrow> PricePoint option" where
  "point_at s r = (case cells s r of Some (PointObj p) \<Rightarrow> Some p | _ \<Rightarrow> None)"

definition points :: "store \<Rightarrow> addr \<Rightarrow> PricePoint list option" where
  "points s a =
     (case cells s a of
        Some (PointArray refs) \<Rightarrow> those (map (point_at s) refs)
      | _ \<Rightarrow> None)"

text \<open>The array and the records it refers to lie below the next free address.\<close>

definition allocated :: "store \<Rightarrow> addr \<Rightarrow> bool" where
  "allocated s a =
     (a < lim s \<and>
      (case cells s a of
         Some (PointArray refs) \<Rightarrow> list_all (\<lambda>r. r < lim s) refs
       | _ \<Rightarrow> True))"

text \<open>
  The regression, the returns and the confidence of \<open>fastPredictStock\<close>, as functions
  of the arrays and numbers that the source holds in local variables.
\<close>

definition slopeOn :: "jsnum list \<Rightarrow> jsnum list \<Rightarrow> jsnum" where
  "slopeOn x recentPrices =
     (let n = Fin (real (length recentPrices));
          sumX = sum_reduce x;
          sumY = sum_reduce recentPrices
      in jdiv (jsub (jmul n (sumXY x recentPrices)) (jmul sumX sumY))
              (jsub (jmul n (sumXX x)) (jmul sumX sumX)))"

definition interceptOn :: "jsnum \<Rightarrow> jsnum list \<Rightarrow> jsnum list \<Rightarrow> jsnum" where
  "interceptOn sl x recentPrices =
     jdiv (jsub (sum_reduce recentPrices) (jmul sl (sum_reduce x)))
          (Fin (real (length recentPrices)))"

definition returnsOn :: "jsnum list \<Rightarrow> jsnum list \<Rightarrow> jsnum list" where
  "returnsOn rest prices =
     map (\<lambda>(p, i). jdiv (jsub p (nth_num prices (int i))) (nth_num prices (int i)))
       (zip rest [0 ..< length rest])"

definition confidenceFrom :: "jsnum \<Rightarrow> jsnum \<Rightarrow> jsnum \<Rightarrow> jsnum \<Rightarrow> jsnum \<Rightarrow> jsnum" where
  "confidenceFrom sl short long cur vol =
     (let trendStrength = Math_abs sl;
          maConsistency = jdiv (Math_abs (jsub short long)) cur;
          baseConfidence =
            Math_min (Fin 90)
              (jadd (jmul trendStrength (Fin 1000)) (jmul maConsistency (Fin 100)));
          volatilityPenalty = Math_min (Fin 30) (jmul vol (Fin 500))
      in Math_max (Fin 45) (Math_min (Fin 90) (jsub baseConfidence volatilityPenalty)))"

text \<open>
  \<open>fastPredictStock\<close> on the store, one binding for each \<open>const\<close> of the source that
  holds an array: \<open>prices\<close>, the three \<open>slice\<close>s, \<open>x\<close>, \<open>prices.slice(1)\<close> and
  \<open>returns\<close>. No statement of the source assigns to an element or a field. The
  parameter's type excludes an argument that is not an array of records; the first case
  stands for it.
\<close>

definition fastPredictStock_st :: "addr \<Rightarrow> store \<Rightarrow> (error + PredictionResult) \<times> store" where
  "fastPredictStock_st stockData s0 =
     (case points s0 stockData of
        None \<Rightarrow> (Inl TypeErr, s0)
      | Some pts \<Rightarrow>
          if length pts < 10 then (Inl InsufficientData, s0)
          else
            let (prices, s1) = alloc (NumArray (map price pts)) s0;
                cur = nth_num (nums s1 prices) (int (length (nums s1 prices)) - 1);
                (last5, s2) = alloc (NumArray (slice_last 5 (nums s1 prices))) s1;
                short = jdiv (sum_reduce (nums s2 last5)) (Fin 5);
                (last20, s3) = alloc (NumArray (slice_last 20 (nums s2 prices))) s2;
                long = jdiv (sum_reduce (nums s3 last20)) (Fin 20);
                (recentPrices, s4) = alloc (NumArray (slice_last 10 (nums s3 prices))) s3;
                n = length (nums s4 recentPrices);
                (x, s5) = alloc (NumArray (indices n)) s4;
                sl = slopeOn (nums s5 x) (nums s5 recentPrices);
                ic = interceptOn sl (nums s5 x) (nums s5 recentPrices);
                nxt = jadd (jmul sl (Fin (real n))) ic;
                (rest, s6) = alloc (NumArray (drop 1 (nums s5 prices))) s5;
                (rets, s7) = alloc (NumArray (returnsOn (nums s6 rest) (nums s6 prices))) s6;
                vol = Math_sqrt (variance (nums s7 rets))
            in (Inr (buildResult cur nxt (confidenceFrom sl short long cur vol)), s7))"

text \<open>A store that holds one series: its records, then the array of their addresses.\<close>

definition storeOf :: "PricePoint list \<Rightarrow> store" where
  "storeOf pts =
     \<lparr> cells = (\<lambda>a. if a < length pts then Some (PointObj (pts ! a))
                      else if a = length pts then Some (PointArray [0 ..< length pts])
                      else None),
       lim = Suc (length pts) \<rparr>"

section \<open>Predicates used in the statements and proofs\<close>

text \<open>A sum of squares is never negative: it is a real that is not, \<open>Infinity\<close> or NaN.\<close>

fun nonneg_or_nan :: "jsnum \<Rightarrow> bool" where
  "nonneg_or_nan (Fin r) = (0 \<le> r)"
| "nonneg_or_nan NInf = False"
| "nonneg_or_nan _ = True"

text \<open>A valid price: a real above \<open>0\<close>.\<close>

fun isPos :: "jsnum \<Rightarrow> bool" where
  "isPos (Fin r) = (0 < r)"
| "isPos _ = False"

text \<open>Strictly increasing prices, each compared with the next by \<open><\<close>.\<close>

fun increasing :: "jsnum list \<Rightarrow> bool" where
  "increasing (a # b # xs) = (jlt a b \<and> increasing (b # xs))"
| "increasing _ = True"

text \<open>A series of valid prices.\<close>

definition validSeries :: "PricePoint list \<Rightarrow> bool" where
  "validSeries stockData = list_all (\<lambda>d. isPos (price d)) stockData"

text \<open>Two series of ten prices that increase strictly.\<close>

definition risingSeries :: "PricePoint list" where
  "risingSeries =
     [\<lparr>date = ''2024-01-01'', price = Fin 1000\<rparr>, \<lparr>date = ''2024-01-02'', price = Fin 1001\<rparr>,
      \<lparr>date = ''2024-01-03'', price = Fin 1002\<rparr>, \<lparr>date = ''2024-01-04'', price = Fin 1003\<rparr>,
      \<lparr>date = ''2024-01-05'', price = Fin 1004\<rparr>, \<lparr>date = ''2024-01-06'', price = Fin 1005\<rparr>,
      \<lparr>date = ''2024-01-07'', price = Fin 1006\<rparr>, \<lparr>date = ''2024-01-08'', price = Fin 1007\<rparr>,
      \<lparr>date = ''2024-01-09'', price = Fin 1008\<rparr>, \<lparr>date = ''2024-01-10'', price = Fin 1009\<rparr>]"

definition jumpSeries :: "PricePoint list" where
  "jumpSeries =
     [\<lparr>date = ''2024-01-01'', price = Fin 1\<rparr>, \<lparr>date = ''2024-01-02'', price = Fin 2\<rparr>,
      \<lparr>date = ''2024-01-03'', price = Fin 3\<rparr>, \<lparr>date = ''2024-01-04'', price = Fin 4\<rparr>,
      \<lparr>date = ''2024-01-05'', price = Fin 5\<rparr>, \<lparr>date = ''2024-01-06'', price = Fin 6\<rparr>,
      \<lparr>date = ''2024-01-07'', price = Fin 7\<rparr>, \<lparr>date = ''2024-01-08'', price = Fin 8\<rparr>,
      \<lparr>date = ''2024-01-09'', price = Fin 9\<rparr>, \<lparr>date = ''2024-01-10'', price = Fin 1000\<rparr>]"

definition arithSeries :: "PricePoint list" where
  "arithSeries =
     [\<lparr>date = ''2024-01-01'', price = Fin 100\<rparr>, \<lparr>date = ''2024-01-02'', price = Fin 101\<rparr>,
      \<lparr>date = ''2024-01-03'', price = Fin 102\<rparr>, \<lparr>date = ''2024-01-04'', price = Fin 103\<rparr>,
      \<lparr>date = ''2024-01-05'', price = Fin 104\<rparr>, \<lparr>date = ''2024-01-06'', price = Fin 105\<rparr>,
      \<lparr>date = ''2024-01-07'', price = Fin 106\<rparr>, \<lparr>date = ''2024-01-08'', price = Fin 107\<rparr>,
      \<lparr>date = ''2024-01-09'', price = Fin 108\<rparr>, \<lparr>date = ''2024-01-10'', price = Fin 109\<rparr>]"

section \<open>Properties of the metrics\<close>

lemma isNaN_iff: "isNaN x \<longleftrightarrow> x = NaN"
  by (cases x) simp_all

lemma pow2_nonneg: "nonneg_or_nan (pow2 x)"
  by (cases x) (simp_all add: pow2_def inf_of_sign_def)

lemma jadd_nonneg: "nonneg_or_nan a \<Longrightarrow> nonneg_or_nan b \<Longrightarrow> nonneg_or_nan (jadd a b)"
  by (cases a; cases b) simp_all

lemma foldl_nonneg:
  "nonneg_or_nan acc \<Longrightarrow> (\<And>s v. nonneg_or_nan s \<Longrightarrow> nonneg_or_nan (f s v))
     \<Longrightarrow> nonneg_or_nan (foldl f acc xs)"
  by (induction xs arbitrary: acc) simp_all

lemma tss_nonneg: "nonneg_or_nan (totalSumSquares a)"
  unfolding totalSumSquares_def by (rule foldl_nonneg) (simp_all add: jadd_nonneg pow2_nonneg)

lemma rss_nonneg: "nonneg_or_nan (residualSumSquares a p)"
  unfolding residualSumSquares_def
  by (rule foldl_nonneg) (simp_all add: jadd_nonneg pow2_nonneg split: prod.splits)

text \<open>
  With a numerator and a denominator that are not negative, \<open>1 - r / t\<close> is at most
  \<open>1\<close>, \<open>-Infinity\<close>, or NaN, which the last line of \<open>calculateR2Score\<close> replaces by \<open>0\<close>.
\<close>

lemma r2_le_1_aux:
  "nonneg_or_nan r \<Longrightarrow> nonneg_or_nan t \<Longrightarrow> \<not> jeq t (Fin 0) \<Longrightarrow>
   jle (let r2 = jsub (Fin 1) (jdiv r t) in if isNaN r2 then Fin 0 else r2) (Fin 1)"
  by (cases r; cases t)
     (simp_all add: jle_def jeq_def jsub_def inf_of_sign_def Let_def sgn_real_def
        divide_less_0_iff)

lemma r2_le_1: "length a = length p \<Longrightarrow> \<exists>v. calculateR2Score a p = Inr v \<and> jle v (Fin 1)"
  using r2_le_1_aux[OF rss_nonneg tss_nonneg, of a a p]
  by (auto simp add: calculateR2Score_def jle_def Let_def)

lemma r2_example: "calculateR2Score [Fin 0, Fin 1] [Fin k, Fin 1] = Inr (Fin (1 - 2 * k * k))"
  by (simp add: calculateR2Score_def hasNaN_def totalSumSquares_def residualSumSquares_def
      actualMean_def sum_reduce_def pow2_def jsub_def jeq_def nth_num_def Let_def
      upt_rec[of 0 2] upt_rec[of 1 2] field_simps)

text \<open>
  Claim C5. \<open>calculateR2Score\<close> and \<open>calculateMSE\<close> throw, and then the length-mismatch
  error, exactly when the two arrays differ in length. On arrays of one length,
  \<open>calculateR2Score\<close> returns \<open>0\<close> when the total sum of squares is \<open>0\<close> or either array
  holds a NaN, \<open>calculateMSE\<close> returns \<open>0\<close> when either array holds a NaN, and neither
  function returns NaN on any input.
\<close>

theorem metrics_nan_guard:
  "((\<exists>e. calculateR2Score a p = Inl e) \<longleftrightarrow> length a \<noteq> length p)
   \<and> ((\<exists>e. calculateMSE a p = Inl e) \<longleftrightarrow> length a \<noteq> length p)
   \<and> (length a \<noteq> length p \<longrightarrow>
        calculateR2Score a p = Inl LengthMismatch \<and> calculateMSE a p = Inl LengthMismatch)
   \<and> (length a = length p \<and> (jeq (totalSumSquares a) (Fin 0) \<or> hasNaN a \<or> hasNaN p)
        \<longrightarrow> calculateR2Score a p = Inr (Fin 0))
   \<and> (length a = length p \<and> (hasNaN a \<or> hasNaN p) \<longrightarrow> calculateMSE a p = Inr (Fin 0))
   \<and> calculateR2Score a p \<noteq> Inr NaN \<and> calculateMSE a p \<noteq> Inr NaN"
  by (simp add: calculateR2Score_def calculateMSE_def Let_def isNaN_iff)

theorem metrics_nan_guard_witness:
  "length [Fin 1, NaN] = length [Fin 1, Fin 2] \<and> hasNaN [Fin 1, NaN]
   \<and> calculateR2Score [Fin 1, NaN] [Fin 1, Fin 2] = Inr (Fin 0)
   \<and> calculateMSE [Fin 1, NaN] [Fin 1, Fin 2] = Inr (Fin 0)"
  using metrics_nan_guard[of "[Fin 1, NaN]" "[Fin 1, Fin 2]"]
  by (simp add: hasNaN_def)

text \<open>
  Claim C9. On two arrays of one length that hold no NaN, \<open>calculateR2Score\<close> returns a
  value that is at most \<open>1\<close>. There is no lower bound: below every real \<open>B\<close> lies the
  score of some pair of such arrays.
\<close>

theorem r2_at_most_one_unbounded_below:
  "(length a = length p \<and> \<not> hasNaN a \<and> \<not> hasNaN p
      \<longrightarrow> (\<exists>v. calculateR2Score a p = Inr v \<and> jle v (Fin 1)))
   \<and> (\<forall>B. \<exists>a' p' r. length a' = length p' \<and> \<not> hasNaN a' \<and> \<not> hasNaN p'
          \<and> calculateR2Score a' p' = Inr (Fin r) \<and> r < B)"
proof (intro conjI impI allI)
  assume "length a = length p \<and> \<not> hasNaN a \<and> \<not> hasNaN p"
  then show "\<exists>v. calculateR2Score a p = Inr v \<and> jle v (Fin 1)"
    using r2_le_1 by blast
next
  fix B :: real
  define k where "k = \<bar>B\<bar> + 1"
  have "1 - 2 * k * k < B"
  proof -
    have "k \<le> k * k"
      unfolding k_def by (simp add: mult_le_cancel_left1 algebra_simps)
    then show ?thesis
      unfolding k_def by linarith
  qed
  moreover have "length [Fin 0, Fin 1] = length [Fin k, Fin 1]"
    by simp
  moreover have "\<not> hasNaN [Fin 0, Fin 1]" "\<not> hasNaN [Fin k, Fin 1]"
    by (simp_all add: hasNaN_def)
  ultimately show "\<exists>a' p' r. length a' = length p' \<and> \<not> hasNaN a' \<and> \<not> hasNaN p'
          \<and> calculateR2Score a' p' = Inr (Fin r) \<and> r < B"
    using r2_example[of k] by blast
qed

theorem r2_at_most_one_witness:
  "length [Fin 0, Fin 1] = length [Fin 3, Fin 1]
   \<and> \<not> hasNaN [Fin 0, Fin 1] \<and> \<not> hasNaN [Fin 3, Fin 1]
   \<and> calculateR2Score [Fin 0, Fin 1] [Fin 3, Fin 1] = Inr (Fin (- 17))
   \<and> jle (Fin (- 17)) (Fin 1)"
  using r2_at_most_one_unbounded_below[of "[Fin 0, Fin 1]" "[Fin 3, Fin 1]"] r2_example[of 3]
  by (simp add: hasNaN_def jle_def)

section \<open>Sums, minima and maxima of finite numbers\<close>

lemma foldl_jadd_Fin: "foldl jadd (Fin a) (map Fin rs) = Fin (a + sum_list rs)"
  by (induction rs arbitrary: a) (simp_all add: add.assoc)

lemma sum_reduce_Fin: "sum_reduce (map Fin rs) = Fin (sum_list rs)"
  by (simp add: sum_reduce_def foldl_jadd_Fin)

lemma all_pos_map_Fin: "list_all isPos xs \<Longrightarrow> \<exists>rs. xs = map Fin rs \<and> (\<forall>r\<in>set rs. 0 < r)"
proof (induction xs)
  case Nil
  then show ?case by simp
next
  case (Cons x xs)
  then obtain rs where rs: "xs = map Fin rs" "\<forall>r\<in>set rs. 0 < r"
    by auto
  from Cons.prems obtain r where "x = Fin r" "0 < r"
    by (cases x) auto
  with rs have "x # xs = map Fin (r # rs) \<and> (\<forall>r\<in>set (r # rs). 0 < r)"
    by simp
  then show ?case
    by (intro exI[of _ "r # rs"])
qed

lemma foldl_Math_min_Fin: "foldl Math_min (Fin a) (map Fin rs) = Fin (foldl min a rs)"
  by (induction rs arbitrary: a) (simp_all add: Math_min_def min_def)

lemma foldl_Math_max_Fin: "foldl Math_max (Fin a) (map Fin rs) = Fin (foldl max a rs)"
  by (induction rs arbitrary: a) (simp_all add: Math_max_def max_def)

lemma foldl_min_Min: "foldl min (a::real) rs = Min (set (a # rs))"
  using Min.set_eq_fold[of a rs] by (simp add: foldl_conv_fold min.commute)

lemma foldl_max_Max: "foldl max (a::real) rs = Max (set (a # rs))"
  using Max.set_eq_fold[of a rs] by (simp add: foldl_conv_fold max.commute)

lemma Math_min_list_Fin: "rs \<noteq> [] \<Longrightarrow> Math_min_list (map Fin rs) = Fin (Min (set rs))"
  by (cases rs) (simp_all add: Math_min_list_def Math_min_def foldl_Math_min_Fin foldl_min_Min)

lemma Math_max_list_Fin: "rs \<noteq> [] \<Longrightarrow> Math_max_list (map Fin rs) = Fin (Max (set rs))"
  by (cases rs) (simp_all add: Math_max_list_def Math_max_def foldl_Math_max_Fin foldl_max_Max)

section \<open>The long moving average of \<open>fastPredictStock\<close>\<close>

lemma longMA_Fin: "longMA (map Fin rs) = Fin (sum_list (drop (length rs - 20) rs) / 20)"
  by (simp add: longMA_def slice_last_def drop_map sum_reduce_Fin)




section \<open>The feature extractor\<close>

text \<open>
  Claim C8 as stated: below index \<open>4\<close> the 5-day average is the mean of the prices up
  to the index. It fails on the prices \<open>1, 3\<close> at index \<open>1\<close>: the source takes the
  price \<open>3\<close> itself, the mean being \<open>2\<close>, and the normalized feature is \<open>1\<close>, not \<open>1/2\<close>.
\<close>

theorem ma5_warmup_counterexample:
  "ma5 [Fin 1, Fin 3] 1 = Fin 3
   \<and> jdiv (sum_reduce (take 2 [Fin 1, Fin 3])) (Fin (real (min 5 (1 + 1)))) = Fin 2
   \<and> createAdvancedFeatures \<lparr>xMin = Fin 0, xMax = Fin 1, yMin = Fin 1, yMax = Fin 3\<rparr>
        (Fin 1) [Fin 1, Fin 3] 1 ! 6 = Fin 1"
  by (simp add: ma5_def nth_num_def sum_reduce_def createAdvancedFeatures_def Let_def jsub_def
      numeral_eq_Suc)

text \<open>
  Claim C8, amended. Below index \<open>4\<close> the 5-day average is the price at the index
  alone; from index \<open>4\<close> on it is the sum of the (at most five) prices from \<open>index - 4\<close>
  to \<open>index\<close>, divided by \<open>5\<close>. The feature is that value, less \<open>yMin\<close>, divided by
  \<open>yMax - yMin\<close>.
\<close>

theorem ma5_warmup:
  "(i < 4 \<longrightarrow> ma5 ps i = nth_num ps i)
   \<and> (4 \<le> i \<longrightarrow> ma5 ps i = jdiv (sum_reduce (take 5 (drop (nat i - 4) ps))) (Fin 5))
   \<and> createAdvancedFeatures params x ps i ! 6
       = jdiv (jsub (ma5 ps i) (yMin params)) (jsub (yMax params) (yMin params))"
proof (intro conjI impI)
  show "createAdvancedFeatures params x ps i ! 6
       = jdiv (jsub (ma5 ps i) (yMin params)) (jsub (yMax params) (yMin params))"
    by (simp add: createAdvancedFeatures_def Let_def numeral_eq_Suc)
next
  assume "i < 4"
  then show "ma5 ps i = nth_num ps i"
    by (simp add: ma5_def)
next
  assume h: "4 \<le> i"
  then have "nat (i + 1) - nat (i - 4) = 5"
    by linarith
  moreover have "nat (i - 4) = nat i - 4"
    by linarith
  ultimately have "slice_range (max 0 (i - 4)) (i + 1) ps = take 5 (drop (nat i - 4) ps)"
    using h by (simp add: slice_range_def drop_take max_def)
  moreover have "Math_min (Fin 5) (Fin (real_of_int (i + 1))) = Fin 5"
    using h by (simp add: Math_min_def)
  ultimately show "ma5 ps i = jdiv (sum_reduce (take 5 (drop (nat i - 4) ps))) (Fin 5)"
    using h by (simp add: ma5_def)
qed

theorem ma5_warmup_witness:
  "(1::int) < 4 \<and> ma5 [Fin 1, Fin 3] 1 = Fin 3
   \<and> (4::int) \<le> 4 \<and> ma5 [Fin 1, Fin 2, Fin 3, Fin 4, Fin 5] 4 = Fin 3"
  using ma5_warmup[of 1 "[Fin 1, Fin 3]"] ma5_warmup[of 4 "[Fin 1, Fin 2, Fin 3, Fin 4, Fin 5]"]
  by (simp add: nth_num_def sum_reduce_def)

text \<open>
  Claim C2 as stated: with \<open>xMax = xMin\<close> the normalized index is \<open>0\<close>, and with
  \<open>yMax = yMin\<close> the four price features are \<open>0\<close>. It fails on the one-point series
  with index \<open>0\<close> and price \<open>50\<close>, the extrema taken as \<open>trainLinearRegressionModel\<close>
  takes them: all nine features are NaN.
\<close>

theorem degenerate_range_counterexample:
  "createAdvancedFeatures
     \<lparr>xMin = Math_min_list [Fin 0], xMax = Math_max_list [Fin 0],
      yMin = Math_min_list [Fin 50], yMax = Math_max_list [Fin 50]\<rparr> (Fin 0) [Fin 50] 0
   = [NaN, NaN, NaN, NaN, NaN, NaN, NaN, NaN, NaN]"
  by (simp add: createAdvancedFeatures_def Let_def xNorm_def jsub_def Math_min_list_def
      Math_max_list_def Math_min_def Math_max_def ma3_def ma5_def momentum_def
      featureVolatility_def nth_num_def inf_of_sign_def)

lemma jdiv_zero_not_fin: "\<not> isFin (jdiv a (Fin 0))"
  by (cases a) (simp_all add: inf_of_sign_def sgn_real_def)

lemma jsub_self: "jsub (Fin m) (Fin m) = Fin 0"
  by (simp add: jsub_def)

text \<open>
  Claim C2, amended. The extractor has no guard for a degenerate range. With
  \<open>xMax = xMin\<close> the normalized index is NaN at \<open>x = xMin\<close>, \<open>Infinity\<close> above it and
  \<open>-Infinity\<close> below it; with \<open>yMax = yMin\<close> each of the four price features is NaN
  or an infinity, never \<open>0\<close>. With \<open>xMax \<noteq> xMin\<close> the normalized index is the real
  \<open>(x - xMin) / (xMax - xMin)\<close>.
\<close>

theorem degenerate_range_unguarded:
  "(xMin params = Fin m \<and> xMax params = Fin m \<longrightarrow>
      xNorm params (Fin v) = (if v = m then NaN else if m < v then PInf else NInf)
      \<and> \<not> isFin (createAdvancedFeatures params x ps i ! 0))
   \<and> (yMin params = Fin m \<and> yMax params = Fin m \<longrightarrow>
      \<not> isFin (createAdvancedFeatures params x ps i ! 5)
      \<and> \<not> isFin (createAdvancedFeatures params x ps i ! 6)
      \<and> \<not> isFin (createAdvancedFeatures params x ps i ! 7)
      \<and> \<not> isFin (createAdvancedFeatures params x ps i ! 8))
   \<and> (xMin params = Fin a \<and> xMax params = Fin b \<and> a \<noteq> b \<longrightarrow>
      xNorm params (Fin v) = Fin ((v - a) / (b - a)))"
  by (simp add: createAdvancedFeatures_def Let_def xNorm_def jsub_self jdiv_zero_not_fin
      numeral_eq_Suc)
     (simp add: jsub_def inf_of_sign_def)

theorem degenerate_range_unguarded_witness:
  "xMin \<lparr>xMin = Fin 0, xMax = Fin 0, yMin = Fin 50, yMax = Fin 50\<rparr> = Fin 0
   \<and> xMax \<lparr>xMin = Fin 0, xMax = Fin 0, yMin = Fin 50, yMax = Fin 50\<rparr> = Fin 0
   \<and> yMin \<lparr>xMin = Fin 0, xMax = Fin 0, yMin = Fin 50, yMax = Fin 50\<rparr> = Fin 50
   \<and> yMax \<lparr>xMin = Fin 0, xMax = Fin 0, yMin = Fin 50, yMax = Fin 50\<rparr> = Fin 50
   \<and> xNorm \<lparr>xMin = Fin 0, xMax = Fin 0, yMin = Fin 50, yMax = Fin 50\<rparr> (Fin 1) = PInf
   \<and> \<not> isFin (createAdvancedFeatures \<lparr>xMin = Fin 0, xMax = Fin 0, yMin = Fin 50, yMax = Fin 50\<rparr>
               (Fin 1) [Fin 50] 0 ! 6)
   \<and> xMin \<lparr>xMin = Fin 0, xMax = Fin 9, yMin = Fin 50, yMax = Fin 60\<rparr> = Fin 0
   \<and> xMax \<lparr>xMin = Fin 0, xMax = Fin 9, yMin = Fin 50, yMax = Fin 60\<rparr> = Fin 9
   \<and> (0::real) \<noteq> 9
   \<and> xNorm \<lparr>xMin = Fin 0, xMax = Fin 9, yMin = Fin 50, yMax = Fin 60\<rparr> (Fin 3) = Fin (1 / 3)"
  using degenerate_range_unguarded[where
          params = "\<lparr>xMin = Fin 0, xMax = Fin 0, yMin = Fin 50, yMax = Fin 50\<rparr>"
          and m = 0 and v = 1 and x = "Fin 1" and ps = "[Fin 50]" and i = 0]
        degenerate_range_unguarded[where
          params = "\<lparr>xMin = Fin 0, xMax = Fin 0, yMin = Fin 50, yMax = Fin 50\<rparr>"
          and m = 50 and x = "Fin 1" and ps = "[Fin 50]" and i = 0]
        degenerate_range_unguarded[where
          params = "\<lparr>xMin = Fin 0, xMax = Fin 9, yMin = Fin 50, yMax = Fin 60\<rparr>"
          and v = 3 and a = 0 and b = 9]
  by simp

section \<open>Inference: \<open>predictNextDay\<close>\<close>

lemma bound_range:
  assumes "0 < lo" "lo \<le> hi" "yMin params = Fin lo" "yMax params = Fin hi" "\<not> isNaN v"
  shows "jle (Fin (lo * (8 / 10))) (bound params v) \<and> jle (bound params v) (Fin (hi * (12 / 10)))"
  using assms by (cases v) (auto simp add: bound_def Math_max_def Math_min_def jle_def)

text \<open>
  Claim C6. For a model that \<open>trainLinearRegressionModel\<close> returns on a series \<open>ys\<close>
  of positive prices, and for every next-day index, \<open>predictNextDay\<close> returns a value
  between \<open>0.8 * yMin\<close> and \<open>1.2 * yMax\<close>, where \<open>yMin\<close> and \<open>yMax\<close> are the least and
  the greatest price of \<open>ys\<close>; when the raw output of the network is NaN it returns
  \<open>yMin\<close>.
\<close>

theorem predictNextDay_bounded:
  assumes "trainLinearRegressionModel ml xs ys = Inr model" "ys \<noteq> []" "list_all isPos ys"
  shows "\<exists>v. predictNextDay model i = Inr v
     \<and> jle (jmul (Math_min_list ys) (Fin (8 / 10))) v
     \<and> jle v (jmul (Math_max_list ys) (Fin (12 / 10)))
     \<and> (isNaN (predict model
                (createAdvancedFeatures
                   \<lparr>xMin = Math_min_list xs, xMax = Math_max_list xs,
                     yMin = Math_min_list ys, yMax = Math_max_list ys\<rparr>
                   (Fin (real_of_int i)) ys (min i (int (length ys) - 1))))
          \<longrightarrow> v = Math_min_list ys)"
proof -
  from assms(3) obtain rs where rs: "ys = map Fin rs" "\<forall>r\<in>set rs. 0 < r"
    using all_pos_map_Fin by blast
  with assms(2) have ne: "rs \<noteq> []"
    by auto
  define lo hi where "lo = Min (set rs)" and "hi = Max (set rs)"
  have lo: "Math_min_list ys = Fin lo" and hi: "Math_max_list ys = Fin hi"
    using ne rs(1) by (simp_all add: lo_def hi_def Math_min_list_Fin Math_max_list_Fin)
  have pos: "0 < lo"
    using ne rs(2) by (simp add: lo_def)
  have le: "lo \<le> hi"
    using ne by (simp add: lo_def hi_def)
  define params where "params = \<lparr>xMin = Math_min_list xs, xMax = Math_max_list xs,
                     yMin = Math_min_list ys, yMax = Math_max_list ys\<rparr>"
  from assms(1) obtain f where m: "model = \<lparr>predict = f, normalizationParams = Some params,
       createFeatures = Some (createAdvancedFeatures params), trainingPrices = Some ys\<rparr>"
    by (auto simp add: trainLinearRegressionModel_def params_def Let_def split: ml_run.splits)
  define raw where
    "raw = f (createAdvancedFeatures params (Fin (real_of_int i)) ys (min i (int (length ys) - 1)))"
  define result where "result = denormalize params raw"
  have p: "predictNextDay model i = Inr (if isNaN result then yMin params else bound params result)"
    by (simp add: predictNextDay_def m Let_def result_def raw_def)
  have ymin: "yMin params = Fin lo" and ymax: "yMax params = Fin hi"
    by (simp_all add: params_def lo hi)
  have nanraw: "isNaN raw \<Longrightarrow> isNaN result"
    by (cases raw) (simp_all add: result_def denormalize_def)
  show ?thesis
  proof (cases "isNaN result")
    case True
    then show ?thesis
      using p pos le nanraw ymin by (simp add: lo hi jle_def m raw_def params_def)
  next
    case False
    then show ?thesis
      using p bound_range[OF pos le ymin ymax False] nanraw
      by (auto simp add: lo hi m raw_def params_def)
  qed
qed

theorem predictNextDay_bounded_witness:
  "trainLinearRegressionModel (MLTrains (\<lambda>_. NaN)) [Fin 0, Fin 1] [Fin 10, Fin 20]
     = Inr \<lparr>predict = (\<lambda>_. NaN),
            normalizationParams = Some \<lparr>xMin = Fin 0, xMax = Fin 1, yMin = Fin 10, yMax = Fin 20\<rparr>,
            createFeatures = Some (createAdvancedFeatures
                                    \<lparr>xMin = Fin 0, xMax = Fin 1, yMin = Fin 10, yMax = Fin 20\<rparr>),
            trainingPrices = Some [Fin 10, Fin 20]\<rparr>
   \<and> [Fin 10, Fin 20] \<noteq> [] \<and> list_all isPos [Fin 10, Fin 20]
   \<and> predictNextDay
        \<lparr>predict = (\<lambda>_. NaN),
         normalizationParams = Some \<lparr>xMin = Fin 0, xMax = Fin 1, yMin = Fin 10, yMax = Fin 20\<rparr>,
         createFeatures = Some (createAdvancedFeatures
                                 \<lparr>xMin = Fin 0, xMax = Fin 1, yMin = Fin 10, yMax = Fin 20\<rparr>),
         trainingPrices = Some [Fin 10, Fin 20]\<rparr> 2 = Inr (Fin 10)
   \<and> jle (Fin 8) (Fin 10) \<and> jle (Fin 10) (Fin 24)"
  using predictNextDay_bounded[of "MLTrains (\<lambda>_. NaN)" "[Fin 0, Fin 1]" "[Fin 10, Fin 20]" _ 2]
  by (simp add: trainLinearRegressionModel_def Math_min_list_def Math_max_list_def Math_min_def
      Math_max_def Let_def jle_def)

section \<open>Finite intermediate values\<close>

lemma isFin_iff: "isFin x \<longleftrightarrow> (\<exists>r. x = Fin r)"
  by (cases x) simp_all

lemma fin_nonneg: "isFin x \<Longrightarrow> nonneg_or_nan x \<Longrightarrow> \<exists>v. x = Fin v \<and> 0 \<le> v"
  by (cases x) simp_all

lemma isFin_jadd: "isFin a \<Longrightarrow> isFin b \<Longrightarrow> isFin (jadd a b)"
  by (cases a; cases b) simp_all

lemma isFin_jsub: "isFin a \<Longrightarrow> isFin b \<Longrightarrow> isFin (jsub a b)"
  by (cases a; cases b) (simp_all add: jsub_def)

lemma isFin_jmul: "isFin a \<Longrightarrow> isFin b \<Longrightarrow> isFin (jmul a b)"
  by (cases a; cases b) simp_all

lemma isFin_pow2: "isFin a \<Longrightarrow> isFin (pow2 a)"
  by (simp add: pow2_def isFin_jmul)

lemma isFin_jdiv: "isFin a \<Longrightarrow> b \<noteq> 0 \<Longrightarrow> isFin (jdiv a (Fin b))"
  by (cases a) simp_all

lemma foldl_isFin:
  "isFin acc \<Longrightarrow> (\<And>s v. isFin s \<Longrightarrow> v \<in> set xs \<Longrightarrow> isFin (f s v)) \<Longrightarrow> isFin (foldl f acc xs)"
  by (induction xs arbitrary: acc) simp_all

lemma sum_reduce_isFin: "list_all isFin xs \<Longrightarrow> isFin (sum_reduce xs)"
  unfolding sum_reduce_def by (rule foldl_isFin) (simp_all add: isFin_jadd list_all_iff)

lemma nth_num_Fin: "i < length rs \<Longrightarrow> nth_num (map Fin rs) (int i) = Fin (rs ! i)"
  by (simp add: nth_num_def)

lemma returns_isFin:
  assumes "\<forall>r\<in>set rs. 0 < r"
  shows "list_all isFin (returns (map Fin rs))"
proof -
  have "isFin (jdiv (jsub p (nth_num (map Fin rs) (int i))) (nth_num (map Fin rs) (int i)))"
    if "(p, i) \<in> set (zip (drop 1 (map Fin rs)) [0 ..< length (drop 1 (map Fin rs))])" for p i
  proof -
    from that have "p \<in> set (drop 1 (map Fin rs))" and "i \<in> set [0 ..< length (drop 1 (map Fin rs))]"
      by (auto dest: set_zip_leftD set_zip_rightD)
    then have "p \<in> set (map Fin rs)" and i: "i < length rs"
      by (auto dest: in_set_dropD)
    then have p: "isFin p"
      by auto
    from assms i have "0 < rs ! i" by simp
    then have "rs ! i \<noteq> 0" by simp
    with p i show ?thesis
      by (simp add: nth_num_Fin isFin_jdiv isFin_jsub)
  qed
  then show ?thesis
    by (auto simp add: returns_def list_all_iff)
qed

lemma length_returns: "length (returns ps) = length ps - 1"
  by (simp add: returns_def)

lemma variance_fin:
  assumes "list_all isFin xs" "xs \<noteq> []"
  shows "\<exists>v. variance xs = Fin v \<and> 0 \<le> v"
proof -
  have len: "real (length xs) > 0" using assms(2) by simp
  have avg: "isFin (avgReturn xs)"
    using assms len by (simp add: avgReturn_def isFin_jdiv sum_reduce_isFin)
  let ?S = "foldl (\<lambda>sum ret. jadd sum (pow2 (jsub ret (avgReturn xs)))) (Fin 0) xs"
  have "isFin ?S"
    using assms(1) avg by (intro foldl_isFin) (simp_all add: isFin_jadd isFin_pow2 isFin_jsub list_all_iff)
  moreover have "nonneg_or_nan ?S"
    by (rule foldl_nonneg) (simp_all add: jadd_nonneg pow2_nonneg)
  ultimately obtain s where s: "?S = Fin s" "0 \<le> s"
    using fin_nonneg by blast
  then show ?thesis using len by (simp add: variance_def)
qed

lemma volatility_fin:
  assumes "\<forall>r\<in>set rs. 0 < r" "2 \<le> length rs"
  shows "\<exists>v. volatility (map Fin rs) = Fin v \<and> 0 \<le> v"
proof -
  have "returns (map Fin rs) \<noteq> []"
    using assms(2) length_returns[of "map Fin rs"] by auto
  with returns_isFin[OF assms(1)] obtain v where "variance (returns (map Fin rs)) = Fin v" "0 \<le> v"
    using variance_fin by blast
  then show ?thesis by (simp add: volatility_def)
qed

lemma toFixed1_range:
  assumes "real_of_int a / 10 \<le> c" "c \<le> real_of_int b / 10" "0 < a"
  shows "\<exists>c'. toFixed 1 (Fin c) = Fin c' \<and> real_of_int a / 10 \<le> c' \<and> c' \<le> real_of_int b / 10"
proof (cases "10 ^ 21 \<le> \<bar>c\<bar>")
  case True
  then show ?thesis using assms by (simp add: toFixed_def)
next
  case False
  define z where "z = \<lfloor>\<bar>c\<bar> * 10 ^ 1 + 1 / 2\<rfloor>"
  have cpos: "0 < c" using assms(1,3) by (smt (verit) divide_pos_pos of_int_0_less_iff)
  have "a \<le> z" using assms(1) cpos by (simp add: z_def le_floor_iff field_simps)
  moreover have "z < b + 1" using assms(2) cpos by (simp add: z_def floor_less_iff field_simps)
  ultimately have "real_of_int a / 10 \<le> real_of_int z / 10" "real_of_int z / 10 \<le> real_of_int b / 10"
    by simp_all
  moreover have "toFixed 1 (Fin c) = Fin (real_of_int z / 10)"
    using False cpos unfolding toFixed_def z_def by simp
  ultimately show ?thesis by blast
qed

section \<open>The regression over ten prices\<close>

lemma length10: "length (qs::'a list) = 10 \<Longrightarrow> \<exists>q0 q1 q2 q3 q4 q5 q6 q7 q8 q9. qs = [q0,q1,q2,q3,q4,q5,q6,q7,q8,q9]"
  by (simp add: numeral_eq_Suc length_Suc_conv) blast

lemma slope10: "slope [Fin q0, Fin q1, Fin q2, Fin q3, Fin q4, Fin q5, Fin q6, Fin q7, Fin q8, Fin q9]
  = Fin ((9 * (q9 - q0) + 7 * (q8 - q1) + 5 * (q7 - q2) + 3 * (q6 - q3) + (q5 - q4)) / 165)"
  by (simp add: slope_def Let_def indices_def upt_conv_Cons sum_reduce_def sumXY_def sumXX_def nth_num_def jsub_def field_simps)

lemma nextPrice10: "nextPrice [Fin q0, Fin q1, Fin q2, Fin q3, Fin q4, Fin q5, Fin q6, Fin q7, Fin q8, Fin q9]
  = Fin ((6 * q9 + 5 * q8 + 4 * q7 + 3 * q6 + 2 * q5 + q4 - q2 - 2 * q1 - 3 * q0) / 15)"
  by (simp add: nextPrice_def intercept_def slope10 Let_def indices_def upt_conv_Cons sum_reduce_def jsub_def field_simps)

section \<open>The fallback on a valid series\<close>

lemma list10_nth:
  assumes "length (qs::'a list) = 10"
  shows "qs = [qs!0, qs!1, qs!2, qs!3, qs!4, qs!5, qs!6, qs!7, qs!8, qs!9]"
  using length10[OF assms] by (elim exE) simp

lemma valid_series:
  assumes "10 \<le> length stockData" "validSeries stockData"
  shows "\<exists>rs. map price stockData = map Fin rs \<and> (\<forall>r\<in>set rs. 0 < r) \<and> length rs = length stockData
           \<and> price (last stockData) = Fin (last rs)"
proof -
  have "list_all isPos (map price stockData)"
    using assms(2) by (simp add: validSeries_def list_all_iff)
  then obtain rs where rs: "map price stockData = map Fin rs" "\<forall>r\<in>set rs. 0 < r"
    using all_pos_map_Fin by blast
  then have len: "length rs = length stockData"
    by (metis length_map)
  with assms(1) have ne: "stockData \<noteq> []" "rs \<noteq> []" by auto
  have "price (last stockData) = last (map price stockData)"
    using ne by (simp add: last_map)
  also have "\<dots> = Fin (last rs)"
    using ne rs(1) by (simp add: last_map)
  finally show ?thesis using rs len by blast
qed


lemma recent10:
  assumes "10 \<le> length rs" and "qs = drop (length rs - 10) rs"
  shows "slice_last 10 (map Fin rs)
           = [Fin (qs!0), Fin (qs!1), Fin (qs!2), Fin (qs!3), Fin (qs!4),
              Fin (qs!5), Fin (qs!6), Fin (qs!7), Fin (qs!8), Fin (qs!9)]"
proof -
  have len: "length qs = 10"
    unfolding assms(2) using assms(1) by simp
  have "map Fin qs = map Fin [qs!0, qs!1, qs!2, qs!3, qs!4, qs!5, qs!6, qs!7, qs!8, qs!9]"
    using list10_nth[OF len] by (rule arg_cong)
  moreover have "slice_last 10 (map Fin rs) = map Fin qs"
    by (simp add: slice_last_def drop_map assms(2))
  ultimately show ?thesis
    by (simp only: list.map)
qed

lemma cur_Fin:
  assumes "rs \<noteq> []"
  shows "nth_num (map Fin rs) (int (length (map Fin rs)) - 1) = Fin (last rs)"
proof (cases rs rule: rev_cases)
  case Nil
  with assms show ?thesis by simp
next
  case (snoc ys y)
  then show ?thesis
    by (simp add: nth_num_def nth_append)
qed


lemma shortMA_Fin: "shortMA (map Fin rs) = Fin (sum_list (drop (length rs - 5) rs) / 5)"
  by (simp add: shortMA_def slice_last_def drop_map sum_reduce_Fin)

lemma clamp_Fin:
  "lo \<le> hi \<Longrightarrow> \<exists>c. Math_max (Fin lo) (Math_min (Fin hi) (Fin z)) = Fin c \<and> lo \<le> c \<and> c \<le> hi"
  by (simp add: Math_max_def Math_min_def)

lemma isFin_Math_min: "isFin a \<Longrightarrow> isFin b \<Longrightarrow> isFin (Math_min a b)"
  by (cases a; cases b) (simp_all add: Math_min_def)

lemma isFin_Math_max: "isFin a \<Longrightarrow> isFin b \<Longrightarrow> isFin (Math_max a b)"
  by (cases a; cases b) (simp_all add: Math_max_def)

lemma isFin_Math_abs: "isFin a \<Longrightarrow> isFin (Math_abs a)"
  by (cases a) simp_all

lemma slope_recent_Fin:
  assumes "10 \<le> length rs"
  shows "isFin (slope (slice_last 10 (map Fin rs)))"
  unfolding recent10[OF assms refl] slope10 by simp

lemma nextPrice_recent_Fin:
  assumes "10 \<le> length rs"
  shows "isFin (nextPrice (slice_last 10 (map Fin rs)))"
  unfolding recent10[OF assms refl] nextPrice10 by simp

lemma fastConfidence_range:
  assumes "10 \<le> length rs" "\<forall>r\<in>set rs. 0 < r"
  shows "\<exists>c. fastConfidence (map Fin rs) = Fin c \<and> 45 \<le> c \<and> c \<le> 90"
proof -
  from assms have ne: "rs \<noteq> []"
    by auto
  with assms(2) have "0 < last rs"
    by simp
  then have lastnz: "last rs \<noteq> 0"
    by simp
  have vol: "isFin (volatility (map Fin rs))"
    using volatility_fin[OF assms(2)] assms(1) by force
  have cur: "nth_num (map Fin rs) (int (length (map Fin rs)) - 1) = Fin (last rs)"
    using ne by (rule cur_Fin)
  define z where "z = jsub (Math_min (Fin 90)
              (jadd (jmul (Math_abs (slope (slice_last 10 (map Fin rs)))) (Fin 1000))
                 (jmul (jdiv (Math_abs (jsub (shortMA (map Fin rs)) (longMA (map Fin rs))))
                          (Fin (last rs))) (Fin 100))))
            (Math_min (Fin 30) (jmul (volatility (map Fin rs)) (Fin 500)))"
  have "isFin z"
    unfolding z_def using lastnz vol slope_recent_Fin[OF assms(1)]
    by (intro isFin_jsub isFin_Math_min isFin_jadd isFin_jmul isFin_jdiv isFin_Math_abs)
       (simp_all add: shortMA_Fin longMA_Fin)
  then obtain zr where zr: "z = Fin zr"
    using isFin_iff by blast
  have "fastConfidence (map Fin rs) = Math_max (Fin 45) (Math_min (Fin 90) z)"
    unfolding fastConfidence_def Let_def cur z_def by (rule refl)
  then show ?thesis
    using clamp_Fin[of 45 90 zr] zr by simp
qed

lemma fast_confidence_bounds:
  assumes "10 \<le> length stockData" "validSeries stockData"
  shows "\<exists>r. fastPredictStock stockData = Inr r \<and> jle (Fin 45) (confidence r) \<and> jle (confidence r) (Fin 90)"
proof -
  obtain rs where rs: "map price stockData = map Fin rs" "\<forall>r\<in>set rs. 0 < r" "length rs = length stockData"
    using valid_series[OF assms] by blast
  obtain c where c: "fastConfidence (map Fin rs) = Fin c" "45 \<le> c" "c \<le> 90"
    using fastConfidence_range[of rs] assms(1) rs by auto
  obtain c' where c': "toFixed 1 (Fin c) = Fin c'" "45 \<le> c'" "c' \<le> 90"
    using toFixed1_range[of 450 c 900] c by auto
  have "confidence (buildResult a b (Fin c)) = Fin c'" for a b
    using c'(1) by (simp add: buildResult_def Let_def)
  then show ?thesis
    using assms(1) c c' by (simp add: fastPredictStock_def rs(1) Let_def jle_def)
qed

lemma increasing_tl: "increasing xs \<Longrightarrow> increasing (tl xs)"
  by (cases xs rule: increasing.cases) simp_all

lemma increasing_drop: "increasing xs \<Longrightarrow> increasing (drop k xs)"
proof (induction k arbitrary: xs)
  case 0
  then show ?case by simp
next
  case (Suc k)
  then show ?case by (simp add: drop_Suc increasing_tl)
qed

lemma trendOf_Fin:
  assumes "0 < cur"
  shows "trendOf (jsub (Fin np) (Fin cur)) (Fin cur) =
           (if \<bar>np - cur\<bar> < cur * (5 / 1000) then Stable
            else if cur * (5 / 1000) \<le> np - cur then Up else Down)"
  using assms by (auto simp add: trendOf_def jsub_def)

lemma trend_buildResult: "trend (buildResult cur nxt conf) = trendOf (jsub nxt cur) cur"
  by (simp add: buildResult_def Let_def)

text \<open>
  Claim C7, amended. On a series of at least ten positive prices that increase strictly,
  the slope of the regression line over the last ten prices is positive, but the trend
  compares the extrapolated price with the current one: it is \<open>up\<close> exactly when the
  extrapolated price exceeds the current price by at least 0.5 percent of the current
  price, and \<open>stable\<close> exactly when it differs from it by less than that.
\<close>

theorem fallback_trend_of_increasing:
  assumes "10 \<le> length stockData" "validSeries stockData"
    "increasing (map price stockData)"
  shows "\<exists>r s np cur. fastPredictStock stockData = Inr r
     \<and> slope (slice_last 10 (map price stockData)) = Fin s \<and> 0 < s
     \<and> nextPrice (slice_last 10 (map price stockData)) = Fin np
     \<and> price (last stockData) = Fin cur
     \<and> (trend r = Up \<longleftrightarrow> cur * (5 / 1000) \<le> np - cur)
     \<and> (trend r = Stable \<longleftrightarrow> \<bar>np - cur\<bar> < cur * (5 / 1000))"
proof -
  obtain rs where rs: "map price stockData = map Fin rs" "\<forall>r\<in>set rs. 0 < r"
      "length rs = length stockData" "price (last stockData) = Fin (last rs)"
    using valid_series[OF assms(1,2)] by blast
  have len: "10 \<le> length rs"
    using assms(1) rs(3) by simp
  then have ne: "rs \<noteq> []"
    by auto
  with rs(2) have lastpos: "0 < last rs"
    by simp
  define qs where "qs = drop (length rs - 10) rs"
  note rec = recent10[OF len qs_def]
  have "increasing (slice_last 10 (map Fin rs))"
    using assms(3) unfolding rs(1) slice_last_def by (rule increasing_drop)
  then have inc: "qs!0 < qs!1" "qs!1 < qs!2" "qs!2 < qs!3" "qs!3 < qs!4" "qs!4 < qs!5"
      "qs!5 < qs!6" "qs!6 < qs!7" "qs!7 < qs!8" "qs!8 < qs!9"
    unfolding rec by simp_all
  define s where "s = (9 * (qs!9 - qs!0) + 7 * (qs!8 - qs!1) + 5 * (qs!7 - qs!2) + 3 * (qs!6 - qs!3) + (qs!5 - qs!4)) / 165"
  have s: "slope (slice_last 10 (map Fin rs)) = Fin s"
    unfolding rec slope10 s_def by (rule refl)
  have spos: "0 < s"
    unfolding s_def using inc by simp
  obtain np where np: "nextPrice (slice_last 10 (map Fin rs)) = Fin np"
    using nextPrice_recent_Fin[OF len] isFin_iff by blast
  have cur: "nth_num (map Fin rs) (int (length (map Fin rs)) - 1) = Fin (last rs)"
    using ne by (rule cur_Fin)
  define r where "r = buildResult (Fin (last rs)) (Fin np) (fastConfidence (map Fin rs))"
  have fr: "fastPredictStock stockData = Inr r"
    using assms(1) unfolding fastPredictStock_def Let_def rs(1) cur np r_def by simp
  have tr: "trend r = (if \<bar>np - last rs\<bar> < last rs * (5 / 1000) then Stable
            else if last rs * (5 / 1000) \<le> np - last rs then Up else Down)"
    unfolding r_def trend_buildResult using lastpos by (rule trendOf_Fin)
  have "trend r = Up \<longleftrightarrow> last rs * (5 / 1000) \<le> np - last rs"
    unfolding tr using lastpos by auto
  moreover have "trend r = Stable \<longleftrightarrow> \<bar>np - last rs\<bar> < last rs * (5 / 1000)"
    unfolding tr by auto
  ultimately show ?thesis
    using fr s spos np rs(4) unfolding rs(1) by blast
qed


lemma fast_trend_eq:
  "10 \<le> length stockData \<Longrightarrow>
   map_sum id trend (fastPredictStock stockData)
     = Inr (trendOf (jsub (nextPrice (slice_last 10 (map price stockData)))
                          (nth_num (map price stockData) (int (length stockData) - 1)))
                    (nth_num (map price stockData) (int (length stockData) - 1)))"
  by (simp add: fastPredictStock_def Let_def trend_buildResult)

text \<open>
  Claim C7 as stated: on strictly increasing prices the fallback trend is \<open>up\<close>. It
  fails on the ten prices \<open>1000, 1001, ..., 1009\<close>: the extrapolated price is \<open>1010\<close>,
  a change of \<open>1\<close>, below 0.5 percent of \<open>1009\<close>, and the trend is \<open>stable\<close>. On
  \<open>1, 2, ..., 9, 1000\<close> the extrapolated price is \<open>407\<close> and the trend is \<open>down\<close>.
\<close>

theorem fallback_trend_counterexample:
  "10 \<le> length risingSeries \<and> validSeries risingSeries
   \<and> increasing (map price risingSeries)
   \<and> map_sum id trend (fastPredictStock risingSeries) = Inr Stable
   \<and> 10 \<le> length jumpSeries \<and> validSeries jumpSeries
   \<and> increasing (map price jumpSeries)
   \<and> map_sum id trend (fastPredictStock jumpSeries) = Inr Down"
proof -
  have a: "10 \<le> length risingSeries" "10 \<le> length jumpSeries"
    by (simp_all add: risingSeries_def jumpSeries_def)
  have "map_sum id trend (fastPredictStock risingSeries) = Inr Stable"
    unfolding fast_trend_eq[OF a(1)]
    by (simp add: risingSeries_def slice_last_def nextPrice10 nth_num_def trendOf_def jsub_def)
  moreover have "map_sum id trend (fastPredictStock jumpSeries) = Inr Down"
    unfolding fast_trend_eq[OF a(2)]
    by (simp add: jumpSeries_def slice_last_def nextPrice10 nth_num_def trendOf_def jsub_def)
  moreover have "validSeries risingSeries" "increasing (map price risingSeries)"
      "validSeries jumpSeries" "increasing (map price jumpSeries)"
    by (simp_all add: validSeries_def risingSeries_def jumpSeries_def)
  ultimately show ?thesis
    using a by simp
qed


theorem fallback_trend_of_increasing_witness:
  "10 \<le> length arithSeries \<and> validSeries arithSeries \<and> increasing (map price arithSeries)
   \<and> slope (slice_last 10 (map price arithSeries)) = Fin 1
   \<and> nextPrice (slice_last 10 (map price arithSeries)) = Fin 110
   \<and> price (last arithSeries) = Fin 109
   \<and> map_sum id trend (fastPredictStock arithSeries) = Inr Up"
proof -
  have a: "10 \<le> length arithSeries" "validSeries arithSeries"
      "increasing (map price arithSeries)"
    by (simp_all add: arithSeries_def validSeries_def)
  have b: "slope (slice_last 10 (map price arithSeries)) = Fin 1"
      "nextPrice (slice_last 10 (map price arithSeries)) = Fin 110"
      "price (last arithSeries) = Fin 109"
    by (simp_all add: arithSeries_def slice_last_def slope10 nextPrice10)
  from fallback_trend_of_increasing[OF a] obtain r s np cur where
    r: "fastPredictStock arithSeries = Inr r"
       "slope (slice_last 10 (map price arithSeries)) = Fin s"
       "nextPrice (slice_last 10 (map price arithSeries)) = Fin np"
       "price (last arithSeries) = Fin cur"
       "trend r = Up \<longleftrightarrow> cur * (5 / 1000) \<le> np - cur"
    by blast
  from r(3,4) b(2,3) have "np = 110" "cur = 109"
    by simp_all
  with r(5) have "trend r = Up"
    by simp
  with r(1) have "map_sum id trend (fastPredictStock arithSeries) = Inr Up"
    by simp
  with a b show ?thesis
    by simp
qed

section \<open>The trained path on a valid series\<close>

lemma assign_keys: "fst ` set (assign k v al) = insert k (fst ` set al)"
  by (auto simp add: assign_def image_iff split: if_splits) force+

lemma assign_values: "snd ` set (assign k v al) \<subseteq> insert v (snd ` set al)"
  by (auto simp add: assign_def image_iff split: if_splits)

lemma foldl_assign_values:
  "snd ` set (foldl (\<lambda>acc item. assign (date item) (price item) acc) al sd)
     \<subseteq> snd ` set al \<union> price ` set sd"
proof (induction sd arbitrary: al)
  case Nil
  then show ?case by simp
next
  case (Cons d sd)
  have "snd ` set (foldl (\<lambda>acc item. assign (date item) (price item) acc) (assign (date d) (price d) al) sd)
        \<subseteq> snd ` set (assign (date d) (price d) al) \<union> price ` set sd"
    by (rule Cons.IH)
  also have "\<dots> \<subseteq> insert (price d) (snd ` set al) \<union> price ` set sd"
    using assign_values[of "date d" "price d" al] by blast
  finally show ?case by auto
qed

lemma foldl_assign_keys:
  "fst ` set (foldl (\<lambda>acc item. assign (date item) (price item) acc) al sd)
     = fst ` set al \<union> date ` set sd"
  by (induction sd arbitrary: al) (simp_all add: assign_keys)

lemma timeSeriesOf_values: "snd ` set (timeSeriesOf sd) \<subseteq> price ` set sd"
  using foldl_assign_values[of "[]" sd] by (simp add: timeSeriesOf_def)

lemma timeSeriesOf_nonempty: "sd \<noteq> [] \<Longrightarrow> timeSeriesOf sd \<noteq> []"
  using foldl_assign_keys[of "[]" sd] by (auto simp add: timeSeriesOf_def)

lemma lookup_in_values:
  assumes "d \<in> fst ` set ts"
  shows "(case map_of ts d of Some v \<Rightarrow> v | None \<Rightarrow> NaN) \<in> snd ` set ts"
proof -
  from assms obtain v where v: "map_of ts d = Some v"
    by (meson map_of_eq_None_iff not_Some_eq)
  then have "(d, v) \<in> set ts"
    by (rule map_of_SomeD)
  then have "v \<in> snd ` set ts"
    by force
  with v show ?thesis by simp
qed

lemma processStockData_valid:
  assumes "validSeries sd" "sd \<noteq> []"
  shows "\<exists>ds rs. processStockData (Some (timeSeriesOf sd))
            = Inr \<lparr>dates_of = ds, prices_of = map Fin rs, xs_of = indices (length rs)\<rparr>
          \<and> (\<forall>r\<in>set rs. 0 < r) \<and> rs \<noteq> []"
proof -
  define ts where "ts = timeSeriesOf sd"
  define ds where "ds = sort (map fst ts)"
  define ps where "ps = map (\<lambda>d. case map_of ts d of Some v \<Rightarrow> v | None \<Rightarrow> NaN) ds"
  have "set ps \<subseteq> snd ` set ts"
    unfolding ps_def ds_def using lookup_in_values[of _ ts] by auto
  also have "\<dots> \<subseteq> price ` set sd"
    unfolding ts_def by (rule timeSeriesOf_values)
  finally have "\<forall>p\<in>set ps. isPos p"
    using assms(1) by (auto simp add: validSeries_def list_all_iff)
  then have "list_all isPos ps"
    by (simp add: list_all_iff)
  then obtain rs where rs: "ps = map Fin rs" "\<forall>r\<in>set rs. 0 < r"
    using all_pos_map_Fin by blast
  have "ts \<noteq> []"
    unfolding ts_def using assms(2) by (rule timeSeriesOf_nonempty)
  then have "length ps \<noteq> 0"
    by (simp add: ps_def ds_def)
  then have "ps \<noteq> []"
    by simp
  with rs have ne: "rs \<noteq> []"
    by auto
  have len: "length ds = length rs"
    using rs(1) by (metis length_map ps_def)
  have nonan: "\<not> hasNaN (map Fin rs)"
    by (simp add: hasNaN_def list_ex_iff)
  have "processStockData (Some ts)
          = Inr \<lparr>dates_of = ds, prices_of = map Fin rs, xs_of = indices (length rs)\<rparr>"
    using nonan ne len unfolding processStockData_def
    by (simp add: Let_def ds_def[symmetric] ps_def[symmetric] rs(1))
  with rs(2) ne show ?thesis
    unfolding ts_def by blast
qed


lemma bound_isFin:
  assumes "yMin params = Fin lo" "yMax params = Fin hi" "\<not> isNaN v"
  shows "isFin (bound params v)"
  using assms by (cases v) (simp_all add: bound_def Math_max_def Math_min_def)

lemma clean_isFin:
  assumes "yMin params = Fin lo" "yMax params = Fin hi" "list_all isFin tp"
  shows "isFin (if isNaN val
                then or_else (nth_num tp (int i)) (jdiv (jadd (yMin params) (yMax params)) (Fin 2))
                else bound params val)"
proof (cases "isNaN val")
  case True
  have "isFin (nth_num tp (int i)) \<or> isNaN (nth_num tp (int i))"
    using assms(3) by (simp add: nth_num_def list_all_length)
  then show ?thesis
    using True assms(1,2) by (auto simp add: or_else_def)
next
  case False
  then show ?thesis
    using bound_isFin[OF assms(1,2)] by simp
qed

lemma getPredictionsForData_fin:
  assumes "normalizationParams model = Some params" "createFeatures model = Some mk"
    "trainingPrices model = Some tp" "yMin params = Fin lo" "yMax params = Fin hi"
    "list_all isFin tp"
  shows "\<exists>preds. getPredictionsForData model xs = Inr preds \<and> length preds = length xs
           \<and> list_all isFin preds"
proof -
  define result where
    "result = map (\<lambda>f. denormalize params (predict model f))
                (map (\<lambda>(x, i). mk x tp (int i)) (zip xs [0 ..< length xs]))"
  define preds where
    "preds = map (\<lambda>(val, i).
                    if isNaN val
                    then or_else (nth_num tp (int i))
                           (jdiv (jadd (yMin params) (yMax params)) (Fin 2))
                    else bound params val)
                  (zip result [0 ..< length result])"
  have g: "getPredictionsForData model xs = Inr preds"
    unfolding getPredictionsForData_def assms(1,2,3) preds_def result_def by (simp add: Let_def)
  have "length result = length xs"
    by (simp add: result_def)
  then have len: "length preds = length xs"
    by (simp add: preds_def)
  have "list_all isFin preds"
    unfolding preds_def list_all_iff using clean_isFin[OF assms(4,5,6)] by auto
  with g len show ?thesis
    by blast
qed


lemma list_all_isFin_no_NaN: "list_all isFin xs \<Longrightarrow> \<not> hasNaN xs"
  by (auto simp add: hasNaN_def list_ex_iff list_all_iff isFin_iff)

lemma rss_isFin:
  assumes "list_all isFin a" "list_all isFin p" "length a = length p"
  shows "isFin (residualSumSquares a p)"
  unfolding residualSumSquares_def
proof (rule foldl_isFin)
  show "isFin (Fin 0)"
    by simp
next
  fix s v
  assume s: "isFin s" and v: "v \<in> set (zip a [0 ..< length a])"
  obtain val i where vi: "v = (val, i)"
    by (cases v)
  with v have "val \<in> set a" "i \<in> set [0 ..< length a]"
    by (auto dest: set_zip_leftD set_zip_rightD)
  then have "isFin val" "isFin (nth_num p (int i))"
    using assms by (simp_all add: list_all_iff nth_num_def)
  then show "isFin (case v of (val, i) \<Rightarrow> jadd s (pow2 (jsub val (nth_num p (int i)))))"
    using s vi by (simp add: isFin_jadd isFin_pow2 isFin_jsub)
qed

lemma tss_isFin:
  assumes "list_all isFin a" "a \<noteq> []"
  shows "isFin (totalSumSquares a)"
proof -
  have "isFin (actualMean a)"
    using assms by (simp add: actualMean_def isFin_jdiv sum_reduce_isFin)
  then show ?thesis
    unfolding totalSumSquares_def using assms(1)
    by (intro foldl_isFin) (simp_all add: isFin_jadd isFin_pow2 isFin_jsub list_all_iff)
qed

lemma calculateR2Score_fin:
  assumes "list_all isFin a" "list_all isFin p" "length a = length p" "a \<noteq> []"
  shows "\<exists>r. calculateR2Score a p = Inr (Fin r)"
proof -
  obtain t where t: "totalSumSquares a = Fin t"
    using tss_isFin[OF assms(1,4)] isFin_iff by blast
  obtain rs where rs: "residualSumSquares a p = Fin rs"
    using rss_isFin[OF assms(1,2,3)] isFin_iff by blast
  show ?thesis
    using assms(3) list_all_isFin_no_NaN[OF assms(1)] list_all_isFin_no_NaN[OF assms(2)]
    by (simp add: calculateR2Score_def t rs Let_def jeq_def jsub_def)
qed

lemma calculateMSE_fin:
  assumes "list_all isFin a" "list_all isFin p" "length a = length p" "a \<noteq> []"
  shows "\<exists>m. calculateMSE a p = Inr (Fin m)"
proof -
  obtain rs where rs: "residualSumSquares a p = Fin rs"
    using rss_isFin[OF assms(1,2,3)] isFin_iff by blast
  have "real (length a) \<noteq> 0"
    using assms(4) by simp
  then show ?thesis
    using assms(3) list_all_isFin_no_NaN[OF assms(1)] list_all_isFin_no_NaN[OF assms(2)]
    by (simp add: calculateMSE_def rs Let_def del: of_nat_eq_0_iff)
qed

lemma calculateVolatility_fin:
  assumes "\<forall>r\<in>set rs. 0 < r"
  shows "isFin (calculateVolatility (map Fin rs))"
proof (cases "length rs < 2")
  case True
  then show ?thesis
    by (simp add: calculateVolatility_def)
next
  case False
  then have "2 \<le> length rs"
    by simp
  from volatility_fin[OF assms this] show ?thesis
    using False by (auto simp add: calculateVolatility_def volatility_def)
qed

lemma enhancedConfidence_range:
  assumes "0 < c" "\<forall>r\<in>set rs. 0 < r"
  shows "\<exists>k. enhancedConfidence (Fin r2) (Fin m) (Fin c) (map Fin rs) = Fin k \<and> 40 \<le> k \<and> k \<le> 95"
proof -
  have cnz: "c \<noteq> 0"
    using assms(1) by simp
  define z where "z = jsub (jadd (jmul (Math_max (Fin 0) (Math_min (Fin 100) (jmul (Fin r2) (Fin 100)))) (Fin (6 / 10)))
                     (jmul (Math_max (Fin 0) (jsub (Fin 100) (jmul (jdiv (Fin m) (Fin c)) (Fin 100)))) (Fin (4 / 10))))
                    (Math_min (Fin 20) (jmul (calculateVolatility (map Fin rs)) (Fin 10)))"
  have "isFin z"
    unfolding z_def using cnz calculateVolatility_fin[OF assms(2)]
    by (intro isFin_jsub isFin_Math_min isFin_Math_max isFin_jadd isFin_jmul isFin_jdiv) simp_all
  then obtain zr where zr: "z = Fin zr"
    using isFin_iff by blast
  have "enhancedConfidence (Fin r2) (Fin m) (Fin c) (map Fin rs) = Math_max (Fin 40) (Math_min (Fin 95) z)"
    unfolding enhancedConfidence_def Let_def z_def by (rule refl)
  then show ?thesis
    using clamp_Fin[of 40 95 zr] zr by simp
qed


lemma bind_err_Inr: "bind_err (Inr v) f = f v"
  by (simp add: bind_err_def)

lemma length_indices: "length (indices n) = n"
  by (simp add: indices_def)

lemma confidence_buildResult: "confidence (buildResult cur nxt conf) = toFixed 1 conf"
  by (simp add: buildResult_def Let_def)

lemma enhancedPath_trained:
  assumes "10 \<le> length sd" "validSeries sd"
  shows "\<exists>r. enhancedPath sd (MLTrains f) = Inr r
           \<and> jle (Fin 40) (confidence r) \<and> jle (confidence r) (Fin 95)"
proof -
  from assms(1) have ne: "sd \<noteq> []"
    by auto
  obtain ds rs where pd: "processStockData (Some (timeSeriesOf sd))
            = Inr \<lparr>dates_of = ds, prices_of = map Fin rs, xs_of = indices (length rs)\<rparr>"
      and pos: "\<forall>r\<in>set rs. 0 < r" and rne: "rs \<noteq> []"
    using processStockData_valid[OF assms(2) ne] by blast
  define params where "params = \<lparr>xMin = Math_min_list (indices (length rs)),
      xMax = Math_max_list (indices (length rs)),
      yMin = Math_min_list (map Fin rs), yMax = Math_max_list (map Fin rs)\<rparr>"
  define model where "model = \<lparr>predict = f, normalizationParams = Some params,
      createFeatures = Some (createAdvancedFeatures params), trainingPrices = Some (map Fin rs)\<rparr>"
  have tr: "trainLinearRegressionModel (MLTrains f) (indices (length rs)) (map Fin rs) = Inr model"
    by (simp add: trainLinearRegressionModel_def Let_def model_def params_def)
  have ymin: "yMin params = Fin (Min (set rs))" and ymax: "yMax params = Fin (Max (set rs))"
    using rne by (simp_all add: params_def Math_min_list_Fin Math_max_list_Fin)
  have fin: "list_all isFin (map Fin rs)"
    by (simp add: list_all_iff)
  obtain preds where preds: "getPredictionsForData model (indices (length rs)) = Inr preds"
      "length preds = length (indices (length rs))" "list_all isFin preds"
    using getPredictionsForData_fin[of model params "createAdvancedFeatures params" "map Fin rs",
        OF _ _ _ ymin ymax fin]
    by (auto simp add: model_def)
  have plen: "length (map Fin rs) = length preds"
    using preds(2) by (simp add: length_indices)
  obtain nxt where nxt: "predictNextDay model (int (length (indices (length rs)))) = Inr nxt"
    by (simp add: predictNextDay_def model_def Let_def)
  have mne: "map Fin rs \<noteq> []"
    using rne by simp
  obtain r2 where r2: "calculateR2Score (map Fin rs) preds = Inr (Fin r2)"
    using calculateR2Score_fin[OF fin preds(3) plen mne] by blast
  obtain m where m: "calculateMSE (map Fin rs) preds = Inr (Fin m)"
    using calculateMSE_fin[OF fin preds(3) plen mne] by blast
  obtain rs0 where rs0: "map price sd = map Fin rs0" "\<forall>r\<in>set rs0. 0 < r"
      "length rs0 = length sd" "price (last sd) = Fin (last rs0)"
    using valid_series[OF assms] by blast
  have "rs0 \<noteq> []"
    using rs0(3) ne by auto
  with rs0(2) have curpos: "0 < last rs0"
    by simp
  obtain k where k: "enhancedConfidence (Fin r2) (Fin m) (Fin (last rs0)) (map Fin rs) = Fin k"
      "40 \<le> k" "k \<le> 95"
    using enhancedConfidence_range[OF curpos pos] by blast
  obtain k' where k': "toFixed 1 (Fin k) = Fin k'" "40 \<le> k'" "k' \<le> 95"
    using toFixed1_range[of 400 k 950] k(2,3) by auto
  define r where "r = buildResult (Fin (last rs0)) nxt (Fin k)"
  have "enhancedPath sd (MLTrains f) = Inr r"
    unfolding enhancedPath_def pd bind_err_Inr
    using ne
    by (simp add: tr bind_err_Inr preds(1) nxt r2 m rs0(4) k(1) r_def Let_def list.case_eq_if)
  moreover have "confidence r = Fin k'"
    unfolding r_def confidence_buildResult by (rule k'(1))
  ultimately show ?thesis
    using k'(2,3) by (simp add: jle_def)
qed

lemma enhancedPath_throws: "\<exists>e. enhancedPath sd MLThrows = Inl e"
  by (cases "processStockData (Some (timeSeriesOf sd))")
     (simp_all add: enhancedPath_def bind_err_def trainLinearRegressionModel_def Let_def)

text \<open>
  Claim C3. On a series of at least ten positive prices the fallback returns a confidence
  between \<open>45\<close> and \<open>90\<close>, and every result of the trained path has a confidence
  between \<open>40\<close> and \<open>95\<close>; the trained path does return a result whenever the
  TensorFlow.js part yields a network, whatever that network computes.
\<close>

theorem confidence_ranges:
  assumes "10 \<le> length stockData" "validSeries stockData"
  shows "(\<exists>r. fastPredictStock stockData = Inr r
            \<and> jle (Fin 45) (confidence r) \<and> jle (confidence r) (Fin 90))
       \<and> (\<forall>r. enhancedPath stockData ml = Inr r
            \<longrightarrow> jle (Fin 40) (confidence r) \<and> jle (confidence r) (Fin 95))
       \<and> (\<forall>network. \<exists>r. enhancedPath stockData (MLTrains network) = Inr r)"
proof (intro conjI)
  show "\<exists>r. fastPredictStock stockData = Inr r
            \<and> jle (Fin 45) (confidence r) \<and> jle (confidence r) (Fin 90)"
    using assms by (rule fast_confidence_bounds)
next
  show "\<forall>r. enhancedPath stockData ml = Inr r
            \<longrightarrow> jle (Fin 40) (confidence r) \<and> jle (confidence r) (Fin 95)"
  proof (intro allI impI)
    fix r
    assume a: "enhancedPath stockData ml = Inr r"
    show "jle (Fin 40) (confidence r) \<and> jle (confidence r) (Fin 95)"
    proof (cases ml)
      case MLThrows
      with a enhancedPath_throws[of stockData] show ?thesis
        by auto
    next
      case (MLTrains f)
      with a enhancedPath_trained[OF assms, of f] show ?thesis
        by auto
    qed
  qed
next
  show "\<forall>network. \<exists>r. enhancedPath stockData (MLTrains network) = Inr r"
    using enhancedPath_trained[OF assms] by blast
qed

theorem confidence_ranges_witness:
  "10 \<le> length arithSeries \<and> validSeries arithSeries
   \<and> (\<exists>r. fastPredictStock arithSeries = Inr r
          \<and> jle (Fin 45) (confidence r) \<and> jle (confidence r) (Fin 90))
   \<and> (\<exists>r. enhancedPath arithSeries (MLTrains (\<lambda>_. Fin (1 / 2))) = Inr r
          \<and> jle (Fin 40) (confidence r) \<and> jle (confidence r) (Fin 95))"
proof -
  have a: "10 \<le> length arithSeries" "validSeries arithSeries"
    by (simp_all add: arithSeries_def validSeries_def)
  from confidence_ranges[OF a, of "MLTrains (\<lambda>_. Fin (1 / 2))"] a show ?thesis
    by blast
qed

section \<open>The fallback of \<open>enhancedPredictStock\<close>\<close>

lemma enhancedPath_throws_valid:
  assumes "validSeries sd" "sd \<noteq> []"
  shows "enhancedPath sd MLThrows = Inl MLFailure"
proof -
  obtain ds rs where "processStockData (Some (timeSeriesOf sd))
            = Inr \<lparr>dates_of = ds, prices_of = map Fin rs, xs_of = indices (length rs)\<rparr>"
    using processStockData_valid[OF assms] by blast
  then show ?thesis
    by (simp add: enhancedPath_def bind_err_def trainLinearRegressionModel_def Let_def)
qed

text \<open>
  Claim C4. When \<open>fastPredictStock\<close> returns a result and the trained path throws, at
  whatever step, \<open>enhancedPredictStock\<close> returns the result of \<open>fastPredictStock\<close>.
  It throws only when \<open>fastPredictStock\<close> does, that is on fewer than ten points,
  and then the error of \<open>fastPredictStock\<close>. When training throws or times out the
  result is that of \<open>fastPredictStock\<close>.
\<close>

theorem enhanced_failure_falls_back:
  "(fastPredictStock stockData = Inr fastResult \<and> enhancedPath stockData ml = Inl e
      \<longrightarrow> enhancedPredictStock stockData ml = Inr fastResult)
   \<and> ((\<exists>e'. enhancedPredictStock stockData ml = Inl e') \<longleftrightarrow> length stockData < 10)
   \<and> (length stockData < 10 \<longrightarrow> enhancedPredictStock stockData ml = Inl InsufficientData)
   \<and> enhancedPredictStock stockData MLThrows = fastPredictStock stockData"
proof (intro conjI)
  show "fastPredictStock stockData = Inr fastResult \<and> enhancedPath stockData ml = Inl e
      \<longrightarrow> enhancedPredictStock stockData ml = Inr fastResult"
    by (simp add: enhancedPredictStock_def)
next
  show "(\<exists>e'. enhancedPredictStock stockData ml = Inl e') \<longleftrightarrow> length stockData < 10"
    by (cases "enhancedPath stockData ml")
       (simp_all add: enhancedPredictStock_def fastPredictStock_def Let_def)
next
  show "length stockData < 10 \<longrightarrow> enhancedPredictStock stockData ml = Inl InsufficientData"
    by (simp add: enhancedPredictStock_def fastPredictStock_def)
next
  obtain e' where "enhancedPath stockData MLThrows = Inl e'"
    using enhancedPath_throws by blast
  then show "enhancedPredictStock stockData MLThrows = fastPredictStock stockData"
    by (cases "fastPredictStock stockData") (simp_all add: enhancedPredictStock_def)
qed

theorem enhanced_failure_falls_back_witness:
  "\<exists>fastResult. fastPredictStock arithSeries = Inr fastResult
     \<and> enhancedPath arithSeries MLThrows = Inl MLFailure
     \<and> enhancedPredictStock arithSeries MLThrows = Inr fastResult
     \<and> \<not> length arithSeries < 10"
proof -
  have a: "\<not> length arithSeries < 10" "validSeries arithSeries" "arithSeries \<noteq> []"
    by (simp_all add: arithSeries_def validSeries_def)
  then obtain fastResult where f: "fastPredictStock arithSeries = Inr fastResult"
    by (simp add: fastPredictStock_def Let_def)
  have t: "enhancedPath arithSeries MLThrows = Inl MLFailure"
    using a(2,3) by (rule enhancedPath_throws_valid)
  from enhanced_failure_falls_back[of arithSeries fastResult MLThrows MLFailure] f t
  have "enhancedPredictStock arithSeries MLThrows = Inr fastResult"
    by blast
  with f t a(1) show ?thesis
    by blast
qed

section \<open>\<open>fastPredictStock\<close> and the store\<close>

lemma slopeOn_indices: "slopeOn (indices (length ys)) ys = slope ys"
  by (simp add: slopeOn_def slope_def Let_def)

lemma interceptOn_indices: "interceptOn (slope ys) (indices (length ys)) ys = intercept ys"
  by (simp add: interceptOn_def intercept_def Let_def)

lemma returnsOn_drop: "returnsOn (drop (Suc 0) ps) ps = returns ps"
  by (simp add: returnsOn_def returns_def)

lemma confidenceFrom_fast:
  "confidenceFrom (slope (slice_last 10 ps)) (shortMA ps) (longMA ps)
     (nth_num ps (int (length ps) - 1)) (volatility ps) = fastConfidence ps"
  by (simp add: confidenceFrom_def fastConfidence_def Let_def)

text \<open>
  Claim C10. \<open>fastPredictStock\<close> does not change its argument: every object that
  existed before the call, so the array of records and each record, is the same after
  it, the function reads the same series from the store afterwards, and what it returns
  is the value of the pure function on that series.
\<close>

theorem fastPredictStock_leaves_input:
  assumes "points s a = Some pts" "allocated s a" "fastPredictStock_st a s = (res, s')"
  shows "(\<forall>b. b < lim s \<longrightarrow> cells s' b = cells s b)
       \<and> points s' a = Some pts
       \<and> res = fastPredictStock pts"
proof (cases "length pts < 10")
  case True
  with assms show ?thesis
    by (simp add: fastPredictStock_st_def fastPredictStock_def)
next
  case False
  have s': "s' = s\<lparr>cells := (cells s)
          (lim s \<mapsto> NumArray (map price pts),
           Suc (lim s) \<mapsto> NumArray (slice_last 5 (map price pts)),
           Suc (Suc (lim s)) \<mapsto> NumArray (slice_last 20 (map price pts)),
           Suc (Suc (Suc (lim s))) \<mapsto> NumArray (slice_last 10 (map price pts)),
           Suc (Suc (Suc (Suc (lim s)))) \<mapsto> NumArray (indices (length (slice_last 10 (map price pts)))),
           Suc (Suc (Suc (Suc (Suc (lim s))))) \<mapsto> NumArray (drop 1 (map price pts)),
           Suc (Suc (Suc (Suc (Suc (Suc (lim s)))))) \<mapsto> NumArray (returns (map price pts))),
         lim := Suc (Suc (Suc (Suc (Suc (Suc (Suc (lim s)))))))\<rparr>"
    and res: "res = fastPredictStock pts"
    using assms(1,3) False
    by (simp_all add: fastPredictStock_st_def fastPredictStock_def alloc_def nums_def Let_def
        slopeOn_indices interceptOn_indices returnsOn_drop nextPrice_def
        confidenceFrom_fast[symmetric] shortMA_def longMA_def volatility_def)
  have frame: "\<forall>b. b < lim s \<longrightarrow> cells s' b = cells s b"
    by (simp add: s')
  have "points s' a = points s a"
  proof (cases "cells s a")
    case None
    with assms(1) show ?thesis
      by (simp add: points_def)
  next
    case (Some c)
    show ?thesis
    proof (cases c)
      case (PointArray refs)
      with Some assms(2) have a: "a < lim s" and refs: "\<forall>r\<in>set refs. r < lim s"
        by (simp_all add: allocated_def list_all_iff)
      from refs frame have m: "map (point_at s') refs = map (point_at s) refs"
        by (simp add: point_at_def)
      from a frame have c: "cells s' a = cells s a"
        by simp
      show ?thesis
        unfolding points_def c Some PointArray cell.case option.case m by (rule refl)
    next
      case (PointObj p)
      with Some assms(1) show ?thesis
        by (simp add: points_def)
    next
      case (NumArray xs)
      with Some assms(1) show ?thesis
        by (simp add: points_def)
    qed
  qed
  with frame res assms(1) show ?thesis
    by simp
qed

lemma those_map_Some: "those (map Some xs) = Some xs"
  by (induction xs) simp_all

lemma points_storeOf: "points (storeOf pts) (length pts) = Some pts"
proof -
  have "map (point_at (storeOf pts)) [0 ..< length pts] = map (\<lambda>i. Some (pts ! i)) [0 ..< length pts]"
    by (simp add: point_at_def storeOf_def)
  also have "\<dots> = map Some (map (\<lambda>i. pts ! i) [0 ..< length pts])"
    by simp
  also have "\<dots> = map Some pts"
    by (simp only: map_nth)
  finally show ?thesis
    by (simp add: points_def storeOf_def those_map_Some)
qed

lemma allocated_storeOf: "allocated (storeOf pts) (length pts)"
  by (simp add: allocated_def storeOf_def list_all_iff)

theorem fastPredictStock_leaves_input_witness:
  "points (storeOf arithSeries) (length arithSeries) = Some arithSeries
   \<and> allocated (storeOf arithSeries) (length arithSeries)
   \<and> cells (snd (fastPredictStock_st (length arithSeries) (storeOf arithSeries))) 0
       = Some (PointObj \<lparr>date = ''2024-01-01'', price = Fin 100\<rparr>)
   \<and> points (snd (fastPredictStock_st (length arithSeries) (storeOf arithSeries)))
        (length arithSeries) = Some arithSeries
   \<and> fst (fastPredictStock_st (length arithSeries) (storeOf arithSeries))
       = fastPredictStock arithSeries"
proof -
  have a: "points (storeOf arithSeries) (length arithSeries) = Some arithSeries"
    by (rule points_storeOf)
  have b: "allocated (storeOf arithSeries) (length arithSeries)"
    by (rule allocated_storeOf)
  have c: "fastPredictStock_st (length arithSeries) (storeOf arithSeries)
             = (fst (fastPredictStock_st (length arithSeries) (storeOf arithSeries)),
                snd (fastPredictStock_st (length arithSeries) (storeOf arithSeries)))"
    by simp
  have d: "(0::nat) < lim (storeOf arithSeries)"
      "cells (storeOf arithSeries) 0 = Some (PointObj \<lparr>date = ''2024-01-01'', price = Fin 100\<rparr>)"
    by (simp_all add: storeOf_def arithSeries_def)
  from fastPredictStock_leaves_input[OF a b c] a b d show ?thesis
    by simp
qed


end
